theory Spec2Isabelle
  imports Complex_Main "HOL-Library.Product_Lexorder"
begin

section \<open>Data model of prox.py\<close>

text \<open>
  The values that \<^verbatim>\<open>json.loads\<close> produces: \<^verbatim>\<open>None\<close>, booleans, ints, floats, strings,
  lists and dicts. A dict is an association list read with \<open>map_of\<close>. Python floats are
  modelled as real numbers: rounding, overflow, infinities and NaN are outside the model.
\<close>

datatype json =
    JNull
  | JBool bool
  | JInt int
  | JFloat real
  | JStr string
  | JArr "json list"
  | JObj "(string \<times> json) list"

text \<open>
  The exceptions the handlers can meet. \<open>UpstreamError\<close> stands for whatever
  \<^verbatim>\<open>urllib.request.urlopen\<close>, \<^verbatim>\<open>response.read\<close>, \<^verbatim>\<open>bytes.decode\<close> or \<^verbatim>\<open>json.loads\<close> raise,
  with its message.
\<close>

datatype exn = ValueError | TypeError | AttributeError | IndexError | UpstreamError string

type_synonym bytes = string

definition bind_exn :: "exn + 'a \<Rightarrow> ('a \<Rightarrow> exn + 'b) \<Rightarrow> exn + 'b" where
  "bind_exn m f = (case m of Inl e \<Rightarrow> Inl e | Inr x \<Rightarrow> f x)"

text \<open>\<^verbatim>\<open>node.get(key)\<close>: \<^verbatim>\<open>None\<close> for a missing key, AttributeError when the receiver
  is not a dict.\<close>

fun dict_get :: "json \<Rightarrow> string \<Rightarrow> exn + json" where
  "dict_get (JObj kvs) k = Inr (case map_of kvs k of None \<Rightarrow> JNull | Some v \<Rightarrow> v)"
| "dict_get _ k = Inl AttributeError"

text \<open>\<^verbatim>\<open>float(v)\<close>. The conversion of a string is Python's own parser, taken as the
  parameter \<open>float_str\<close> (\<open>None\<close> is its ValueError).\<close>

fun py_float :: "(string \<Rightarrow> real option) \<Rightarrow> json \<Rightarrow> exn + real" where
  "py_float float_str (JInt i) = Inr (of_int i)"
| "py_float float_str (JFloat r) = Inr r"
| "py_float float_str (JBool b) = Inr (if b then 1 else 0)"
| "py_float float_str (JStr s) =
     (case float_str s of None \<Rightarrow> Inl ValueError | Some r \<Rightarrow> Inr r)"
| "py_float float_str _ = Inl TypeError"

text \<open>Truth value of a Python object, as \<^verbatim>\<open>not x\<close> and \<^verbatim>\<open>x or y\<close> test it.\<close>

fun truthy :: "json \<Rightarrow> bool" where
  "truthy JNull = False"
| "truthy (JBool b) = b"
| "truthy (JInt i) = (i \<noteq> 0)"
| "truthy (JFloat r) = (r \<noteq> 0)"
| "truthy (JStr s) = (s \<noteq> [])"
| "truthy (JArr xs) = (xs \<noteq> [])"
| "truthy (JObj kvs) = (kvs \<noteq> [])"

text \<open>\<^verbatim>\<open>for node in nodes\<close>: a list yields its elements, a dict its keys, a string its
  characters; anything else is not iterable.\<close>

fun py_iter :: "json \<Rightarrow> exn + json list" where
  "py_iter (JArr xs) = Inr xs"
| "py_iter (JObj kvs) = Inr (map (\<lambda>kv. JStr (fst kv)) kvs)"
| "py_iter (JStr s) = Inr (map (\<lambda>c. JStr [c]) s)"
| "py_iter _ = Inl TypeError"

section \<open>calculate_distance\<close>

definition radians :: "real \<Rightarrow> real" where
  "radians x = x * (pi / 180)"

text \<open>\<^verbatim>\<open>math.atan2(y, x)\<close> on the reals.\<close>

definition atan2 :: "real \<Rightarrow> real \<Rightarrow> real" where
  "atan2 y x =
     (if 0 < x then arctan (y / x)
      else if x < 0 then (if 0 \<le> y then arctan (y / x) + pi else arctan (y / x) - pi)
      else if 0 < y then pi / 2
      else if y < 0 then - (pi / 2)
      else 0)"

text \<open>\<^verbatim>\<open>math.sqrt\<close> raises ValueError (math domain error) on a negative argument.\<close>

definition py_sqrt :: "real \<Rightarrow> exn + real" where
  "py_sqrt x = (if x < 0 then Inl ValueError else Inr (sqrt x))"

definition haversine_a :: "real \<Rightarrow> real \<Rightarrow> real \<Rightarrow> real \<Rightarrow> real" where
  "haversine_a lat1 lon1 lat2 lon2 =
     (let d_lat = radians (lat2 - lat1);
          d_lon = radians (lon2 - lon1)
      in (sin (d_lat / 2))\<^sup>2 + cos (radians lat1) * cos (radians lat2) * (sin (d_lon / 2))\<^sup>2)"

definition calculate_distance :: "real \<Rightarrow> real \<Rightarrow> real \<Rightarrow> real \<Rightarrow> exn + real" where
  "calculate_distance lat1 lon1 lat2 lon2 =
     (let earth_radius = 6371;
          a = haversine_a lat1 lon1 lat2 lon2
      in bind_exn (py_sqrt a) (\<lambda>s1.
         bind_exn (py_sqrt (1 - a)) (\<lambda>s2.
         Inr (earth_radius * (2 * atan2 s1 s2)))))"

section \<open>The cache and the environment\<close>

text \<open>The global \<^verbatim>\<open>cache\<close> dict: \<^verbatim>\<open>{'data': None, 'timestamp': 0}\<close> at start.\<close>

record cache =
  data :: "bytes option"
  timestamp :: real

definition initial_cache :: cache where
  "initial_cache = \<lparr>data = None, timestamp = 0\<rparr>"

definition CACHE_DURATION :: real where
  "CACHE_DURATION = 300"

datatype cache_status = HIT | MISS

text \<open>The requests sent to the outside, in the order they are made.\<close>

datatype call = FetchNodes | FetchOpenMeteo real real

record state =
  cache :: cache
  calls :: "call list"

text \<open>
  What a request meets outside the process: the clock (\<^verbatim>\<open>time()\<close>), the outcome of
  \<^verbatim>\<open>urlopen('https://api.bolte.lol/nodes')\<close> with \<^verbatim>\<open>read()\<close>, the outcome of the Open-Meteo
  request for a coordinate, \<^verbatim>\<open>json.loads(raw.decode('utf-8'))\<close>, and \<^verbatim>\<open>float\<close> on a string.
\<close>

record env =
  now :: real
  urlopen_nodes :: "exn + bytes"
  urlopen_meteo :: "real \<Rightarrow> real \<Rightarrow> exn + bytes"
  json_loads :: "bytes \<Rightarrow> exn + json"
  float_str :: "string \<Rightarrow> real option"

section \<open>get_nodes_data\<close>

definition get_nodes_data :: "env \<Rightarrow> state \<Rightarrow> (exn + bytes \<times> cache_status) \<times> state" where
  "get_nodes_data e st =
     (let current_time = now e;
          cache_age = current_time - timestamp (cache st);
          miss = (case urlopen_nodes e of
                    Inl x \<Rightarrow> (Inl x, st\<lparr>calls := calls st @ [FetchNodes]\<rparr>)
                  | Inr d \<Rightarrow>
                      (Inr (d, MISS),
                       st\<lparr>cache := \<lparr>data = Some d, timestamp = current_time\<rparr>,
                          calls := calls st @ [FetchNodes]\<rparr>))
      in case data (cache st) of
           None \<Rightarrow> miss
         | Some d \<Rightarrow> if cache_age < CACHE_DURATION then (Inr (d, HIT), st) else miss)"

section \<open>fetch_openmeteo_current\<close>

text \<open>\<^verbatim>\<open>payload.get('current', {})\<close>: the default only replaces a missing key.\<close>

fun dict_get_default :: "json \<Rightarrow> string \<Rightarrow> json \<Rightarrow> exn + json" where
  "dict_get_default (JObj kvs) k dflt =
     Inr (case map_of kvs k of None \<Rightarrow> dflt | Some v \<Rightarrow> v)"
| "dict_get_default _ k dflt = Inl AttributeError"

definition fetch_openmeteo_current :: "env \<Rightarrow> state \<Rightarrow> real \<Rightarrow> real \<Rightarrow> (exn + json) \<times> state" where
  "fetch_openmeteo_current e st lat lon =
     (bind_exn (urlopen_meteo e lat lon) (\<lambda>raw.
      bind_exn (json_loads e raw) (\<lambda>payload.
      dict_get_default payload ''current'' (JObj []))),
      st\<lparr>calls := calls st @ [FetchOpenMeteo lat lon]\<rparr>)"

section \<open>parse_coordinate\<close>

text \<open>\<^verbatim>\<open>query_params.get(key, [None])[0]\<close> on the dict of \<^verbatim>\<open>parse_qs\<close>.\<close>

definition query_first :: "(string \<rightharpoonup> string list) \<Rightarrow> string \<Rightarrow> exn + string option" where
  "query_first query_params key =
     (case query_params key of
        None \<Rightarrow> Inr None
      | Some [] \<Rightarrow> Inl IndexError
      | Some (v # _) \<Rightarrow> Inr (Some v))"

definition parse_coordinate ::
  "env \<Rightarrow> (string \<rightharpoonup> string list) \<Rightarrow> string \<Rightarrow> string option \<Rightarrow> exn + real option" where
  "parse_coordinate e query_params primary fallback =
     bind_exn (query_first query_params primary) (\<lambda>value.
     bind_exn (case (value, fallback) of
                 (None, Some fb) \<Rightarrow> if fb \<noteq> [] then query_first query_params fb else Inr value
               | _ \<Rightarrow> Inr value) (\<lambda>value.
     case value of
       None \<Rightarrow> Inr None
     | Some v \<Rightarrow> (case float_str e v of None \<Rightarrow> Inl ValueError | Some r \<Rightarrow> Inr (Some r))))"

section \<open>find_nearest_node\<close>

text \<open>The loop state \<^verbatim>\<open>(nearest, min_distance)\<close> starts as \<^verbatim>\<open>(None, float('inf'))\<close> and its
  two parts are only assigned together: \<open>None\<close> is the initial pair, which every distance
  is below, and \<open>Some (node, distance)\<close> a pair that was assigned.\<close>

fun find_nearest_loop ::
  "env \<Rightarrow> real \<Rightarrow> real \<Rightarrow> json list \<Rightarrow> (json \<times> real) option \<Rightarrow> exn + (json \<times> real) option" where
  "find_nearest_loop e user_lat user_lon [] acc = Inr acc"
| "find_nearest_loop e user_lat user_lon (n # nodes) acc =
     bind_exn (dict_get n ''latitude'') (\<lambda>node_lat.
     bind_exn (dict_get n ''longitude'') (\<lambda>node_lon.
     if node_lat = JNull \<or> node_lon = JNull
     then find_nearest_loop e user_lat user_lon nodes acc
     else
       bind_exn (py_float (float_str e) node_lat) (\<lambda>lat.
       bind_exn (py_float (float_str e) node_lon) (\<lambda>lon.
       bind_exn (calculate_distance user_lat user_lon lat lon) (\<lambda>distance.
       if (case acc of None \<Rightarrow> True | Some (nearest, min_distance) \<Rightarrow> distance < min_distance)
       then find_nearest_loop e user_lat user_lon nodes (Some (n, distance))
       else find_nearest_loop e user_lat user_lon nodes acc)))))"

definition find_nearest_node ::
  "env \<Rightarrow> real \<Rightarrow> real \<Rightarrow> json \<Rightarrow> exn + (json \<times> real) option" where
  "find_nearest_node e user_lat user_lon nodes =
     bind_exn (py_iter nodes) (\<lambda>ns. find_nearest_loop e user_lat user_lon ns None)"

section \<open>find_best_matching_node\<close>

record candidate =
  node :: json
  distance_km :: real
  temp_diff :: real

text \<open>One pass of the loop body: \<open>Inr None\<close> is \<^verbatim>\<open>continue\<close>, \<open>Inr (Some c)\<close> the
  appended candidate.\<close>

definition candidate_of :: "env \<Rightarrow> real \<Rightarrow> real \<Rightarrow> json \<Rightarrow> json \<Rightarrow> exn + candidate option" where
  "candidate_of e user_lat user_lon ref_temp n =
     bind_exn (dict_get n ''latitude'') (\<lambda>node_lat.
     bind_exn (dict_get n ''longitude'') (\<lambda>node_lon.
     bind_exn (dict_get n ''temperature'') (\<lambda>node_temp.
     bind_exn (dict_get n ''relative_humidity'') (\<lambda>node_humidity.
     bind_exn (dict_get n ''barometric_pressure'') (\<lambda>node_pressure.
     if node_lat = JNull \<or> node_lon = JNull \<or>
        node_temp = JNull \<or> node_humidity = JNull \<or> node_pressure = JNull
     then Inr None
     else
       bind_exn (py_float (float_str e) node_lat) (\<lambda>lat.
       bind_exn (py_float (float_str e) node_lon) (\<lambda>lon.
       bind_exn (calculate_distance user_lat user_lon lat lon) (\<lambda>d.
       bind_exn (if ref_temp \<noteq> JNull
                 then bind_exn (py_float (float_str e) node_temp) (\<lambda>t.
                      bind_exn (py_float (float_str e) ref_temp) (\<lambda>r.
                      Inr \<bar>t - r\<bar>))
                 else Inr 0) (\<lambda>td.
       Inr (Some \<lparr>node = n, distance_km = d, temp_diff = td\<rparr>))))))))))"

fun collect_candidates ::
  "env \<Rightarrow> real \<Rightarrow> real \<Rightarrow> json \<Rightarrow> json list \<Rightarrow> exn + candidate list" where
  "collect_candidates e user_lat user_lon ref_temp [] = Inr []"
| "collect_candidates e user_lat user_lon ref_temp (n # ns) =
     bind_exn (candidate_of e user_lat user_lon ref_temp n) (\<lambda>r.
     bind_exn (collect_candidates e user_lat user_lon ref_temp ns) (\<lambda>cs.
     Inr (case r of None \<Rightarrow> cs | Some c \<Rightarrow> c # cs)))"

text \<open>\<^verbatim>\<open>sorted(xs, key=f)[0]\<close>: \<^verbatim>\<open>sorted\<close> is a stable sort, as \<open>sort_key\<close> is.\<close>

definition sorted_first :: "('a \<Rightarrow> 'k::linorder) \<Rightarrow> 'a list \<Rightarrow> exn + 'a" where
  "sorted_first f xs = (case sort_key f xs of [] \<Rightarrow> Inl IndexError | x # _ \<Rightarrow> Inr x)"

definition find_best_matching_node ::
  "env \<Rightarrow> real \<Rightarrow> real \<Rightarrow> json \<Rightarrow> json \<Rightarrow> exn + (json \<times> candidate) option" where
  "find_best_matching_node e user_lat user_lon nodes openmeteo_current =
     bind_exn (dict_get openmeteo_current ''temperature_2m'') (\<lambda>ref_temp.
     bind_exn (py_iter nodes) (\<lambda>ns.
     bind_exn (collect_candidates e user_lat user_lon ref_temp ns) (\<lambda>candidates.
     if candidates = [] then Inr None
     else if ref_temp = JNull then
       bind_exn (sorted_first distance_km candidates) (\<lambda>best. Inr (Some (node best, best)))
     else
       (let matching = filter (\<lambda>c. temp_diff c \<le> 2) candidates
        in if matching \<noteq> [] then
             bind_exn (sorted_first distance_km matching) (\<lambda>best. Inr (Some (node best, best)))
           else
             bind_exn (sorted_first (\<lambda>c. (temp_diff c, distance_km c)) candidates)
               (\<lambda>best. Inr (Some (node best, best)))))))"

section \<open>handle_api and proxy_nodes\<close>

text \<open>\<^verbatim>\<open>round(x, 2)\<close>: to the nearest hundredth, a tie to the even one.\<close>

definition py_round2 :: "real \<Rightarrow> real" where
  "py_round2 x =
     (let y = x * 100; f = \<lfloor>y\<rfloor>; d = y - of_int f
      in of_int (if d < 1 / 2 then f else if 1 / 2 < d then f + 1
                 else if even f then f else f + 1) / 100)"

record match_details =
  md_distance_km :: real
  md_temp_diff :: "real option"

text \<open>The JSON object of a successful \<^verbatim>\<open>/api\<close> answer, field by field.\<close>

record payload =
  p_lat :: real
  p_long :: real
  p_node_name :: json
  p_distance_km :: real
  p_temperature :: json
  p_relative_humidity :: json
  p_barometric_pressure :: json
  p_updated_at :: json
  p_checked_with_openmeteo :: bool
  p_check_diff_temperature :: "real option"

text \<open>
  The error bodies \<^verbatim>\<open>{'error': ...}\<close>: the three fixed messages of \<^verbatim>\<open>handle_api\<close>
  (invalid coordinates, missing parameters, no node with valid coordinates) and
  \<^verbatim>\<open>str(e)\<close> of a caught exception.
\<close>

datatype api_error = InvalidCoordinates | MissingParameters | NoNodeFound | Raised exn

datatype body = ErrorJson api_error | ApiJson payload | Raw bytes | ErrorPage exn

record response =
  status :: nat
  body :: body
  x_cache_status :: "cache_status option"

definition send_json :: "body \<Rightarrow> nat \<Rightarrow> cache_status option \<Rightarrow> response" where
  "send_json b st hdr = \<lparr>status = st, body = b, x_cache_status = hdr\<rparr>"

text \<open>\<^verbatim>\<open>a or b\<close>.\<close>

definition py_or :: "json \<Rightarrow> json \<Rightarrow> json" where
  "py_or a b = (if truthy a then a else b)"

definition build_payload :: "real \<Rightarrow> real \<Rightarrow> json \<Rightarrow> match_details \<Rightarrow> exn + payload" where
  "build_payload user_lat user_lon selected_node md =
     bind_exn (dict_get selected_node ''long_name'') (\<lambda>long_name.
     bind_exn (if truthy long_name then Inr long_name
               else dict_get selected_node ''short_name'') (\<lambda>name.
     bind_exn (dict_get selected_node ''temperature'') (\<lambda>temperature.
     bind_exn (dict_get selected_node ''relative_humidity'') (\<lambda>relative_humidity.
     bind_exn (dict_get selected_node ''barometric_pressure'') (\<lambda>barometric_pressure.
     bind_exn (dict_get selected_node ''updated_at'') (\<lambda>updated_at.
     Inr \<lparr>p_lat = user_lat,
          p_long = user_lon,
          p_node_name = py_or name (JStr ''Unbekannt''),
          p_distance_km = py_round2 (md_distance_km md),
          p_temperature = temperature,
          p_relative_humidity = relative_humidity,
          p_barometric_pressure = barometric_pressure,
          p_updated_at = updated_at,
          p_checked_with_openmeteo = True,
          p_check_diff_temperature =
            (case md_temp_diff md of Some t \<Rightarrow> Some (py_round2 t) | None \<Rightarrow> None)\<rparr>))))))"

text \<open>Lines 187 to 198 of \<^verbatim>\<open>handle_api\<close>: the selection and the fallback on distance
  alone. \<open>Inr None\<close> is the 404 branch. The test \<^verbatim>\<open>not match_details\<close> never fires: the
  dict of a selection has three keys.\<close>

definition api_select ::
  "env \<Rightarrow> real \<Rightarrow> real \<Rightarrow> json \<Rightarrow> json \<Rightarrow> exn + (json \<times> match_details) option" where
  "api_select e user_lat user_lon nodes openmeteo_current =
     bind_exn (find_best_matching_node e user_lat user_lon nodes openmeteo_current) (\<lambda>sel.
     case (case sel of
             Some (selected_node, best) \<Rightarrow>
               if truthy selected_node
               then Some (selected_node,
                          \<lparr>md_distance_km = distance_km best, md_temp_diff = Some (temp_diff best)\<rparr>)
               else None
           | None \<Rightarrow> None) of
       Some r \<Rightarrow> Inr (Some r)
     | None \<Rightarrow>
         bind_exn (find_nearest_node e user_lat user_lon nodes) (\<lambda>nearest.
         case nearest of
           Some (selected_node, distance) \<Rightarrow>
             if truthy selected_node
             then Inr (Some (selected_node, \<lparr>md_distance_km = distance, md_temp_diff = None\<rparr>))
             else Inr None
         | None \<Rightarrow> Inr None))"

text \<open>Lines 187 to 215: the answer to a request whose two fetches succeeded.\<close>

definition api_respond ::
  "env \<Rightarrow> real \<Rightarrow> real \<Rightarrow> json \<Rightarrow> json \<Rightarrow> cache_status \<Rightarrow> exn + response" where
  "api_respond e user_lat user_lon nodes openmeteo_current cache_st =
     bind_exn (api_select e user_lat user_lon nodes openmeteo_current) (\<lambda>sel.
     case sel of
       None \<Rightarrow> Inr (send_json (ErrorJson NoNodeFound) 404 None)
     | Some (selected_node, md) \<Rightarrow>
         bind_exn (build_payload user_lat user_lon selected_node md) (\<lambda>p.
         Inr (send_json (ApiJson p) 200 (Some cache_st))))"

text \<open>The body of the second \<^verbatim>\<open>try\<close> of \<^verbatim>\<open>handle_api\<close>; \<open>Inl\<close> is the exception that
  the \<^verbatim>\<open>except Exception\<close> clause receives.\<close>

definition api_try :: "env \<Rightarrow> state \<Rightarrow> real \<Rightarrow> real \<Rightarrow> (exn + response) \<times> state" where
  "api_try e st user_lat user_lon =
     (case get_nodes_data e st of
        (Inl x, st1) \<Rightarrow> (Inl x, st1)
      | (Inr (raw_nodes, cache_st), st1) \<Rightarrow>
          (case json_loads e raw_nodes of
             Inl x \<Rightarrow> (Inl x, st1)
           | Inr nodes \<Rightarrow>
               (case fetch_openmeteo_current e st1 user_lat user_lon of
                  (Inl x, st2) \<Rightarrow> (Inl x, st2)
                | (Inr openmeteo_current, st2) \<Rightarrow>
                    (api_respond e user_lat user_lon nodes openmeteo_current cache_st, st2))))"

text \<open>\<^verbatim>\<open>handle_api\<close>. \<open>Inl\<close> is an exception that no clause of the handler catches
  (an IndexError of \<^verbatim>\<open>parse_coordinate\<close>).\<close>

definition handle_api :: "env \<Rightarrow> state \<Rightarrow> (string \<rightharpoonup> string list) \<Rightarrow> (exn + response) \<times> state" where
  "handle_api e st query_params =
     (case bind_exn (parse_coordinate e query_params ''lat'' None) (\<lambda>user_lat.
           bind_exn (parse_coordinate e query_params ''long'' (Some ''lon'')) (\<lambda>user_lon.
           Inr (user_lat, user_lon))) of
        Inl ValueError \<Rightarrow> (Inr (send_json (ErrorJson InvalidCoordinates) 400 None), st)
      | Inl x \<Rightarrow> (Inl x, st)
      | Inr (None, _) \<Rightarrow> (Inr (send_json (ErrorJson MissingParameters) 400 None), st)
      | Inr (Some _, None) \<Rightarrow> (Inr (send_json (ErrorJson MissingParameters) 400 None), st)
      | Inr (Some user_lat, Some user_lon) \<Rightarrow>
          (case api_try e st user_lat user_lon of
             (Inl x, st') \<Rightarrow> (Inr (send_json (ErrorJson (Raised x)) 500 None), st')
           | (Inr r, st') \<Rightarrow> (Inr r, st')))"

text \<open>\<^verbatim>\<open>proxy_nodes\<close>: the raw cached bytes, or \<^verbatim>\<open>send_error(500, str(e))\<close>.\<close>

definition proxy_nodes :: "env \<Rightarrow> state \<Rightarrow> response \<times> state" where
  "proxy_nodes e st =
     (case get_nodes_data e st of
        (Inl x, st') \<Rightarrow> (\<lparr>status = 500, body = ErrorPage x, x_cache_status = None\<rparr>, st')
      | (Inr (d, cache_st), st') \<Rightarrow>
          (\<lparr>status = 200, body = Raw d, x_cache_status = Some cache_st\<rparr>, st'))"

section \<open>Vocabulary of the properties\<close>

text \<open>A field of a station is present when \<^verbatim>\<open>node.get(key)\<close> is not \<^verbatim>\<open>None\<close>.\<close>

definition field_present :: "json \<Rightarrow> string \<Rightarrow> bool" where
  "field_present n k = (case dict_get n k of Inl x \<Rightarrow> False | Inr v \<Rightarrow> v \<noteq> JNull)"

definition has_coordinates :: "json \<Rightarrow> bool" where
  "has_coordinates n = (field_present n ''latitude'' \<and> field_present n ''longitude'')"

definition complete_data :: "json \<Rightarrow> bool" where
  "complete_data n =
     (field_present n ''latitude'' \<and> field_present n ''longitude'' \<and>
      field_present n ''temperature'' \<and> field_present n ''relative_humidity'' \<and>
      field_present n ''barometric_pressure'')"

definition is_dict :: "json \<Rightarrow> bool" where
  "is_dict n = (case n of JObj kvs \<Rightarrow> True | _ \<Rightarrow> False)"

text \<open>The candidate a station contributes, when its loop pass does not raise.\<close>

definition cand :: "env \<Rightarrow> real \<Rightarrow> real \<Rightarrow> json \<Rightarrow> json \<Rightarrow> candidate option" where
  "cand e ulat ulon ref n =
     (case candidate_of e ulat ulon ref n of Inl x \<Rightarrow> None | Inr r \<Rightarrow> r)"

text \<open>One pass of the loop of \<^verbatim>\<open>find_nearest_node\<close> (lines 104 to 109): \<open>Inr None\<close> is
  \<^verbatim>\<open>continue\<close>, \<open>Inr (Some d)\<close> the distance computed for the station.\<close>

definition distance_of :: "env \<Rightarrow> real \<Rightarrow> real \<Rightarrow> json \<Rightarrow> exn + real option" where
  "distance_of e user_lat user_lon n =
     bind_exn (dict_get n ''latitude'') (\<lambda>node_lat.
     bind_exn (dict_get n ''longitude'') (\<lambda>node_lon.
     if node_lat = JNull \<or> node_lon = JNull then Inr None
     else
       bind_exn (py_float (float_str e) node_lat) (\<lambda>lat.
       bind_exn (py_float (float_str e) node_lon) (\<lambda>lon.
       bind_exn (calculate_distance user_lat user_lon lat lon) (\<lambda>distance.
       Inr (Some distance))))))"

text \<open>The strings a request supplies for the two coordinates: the first value of
  \<^verbatim>\<open>lat\<close>, and the first value of \<^verbatim>\<open>long\<close> or, when \<^verbatim>\<open>long\<close> is absent, of \<^verbatim>\<open>lon\<close>.\<close>

definition first_value :: "(string \<rightharpoonup> string list) \<Rightarrow> string \<Rightarrow> string option" where
  "first_value q k = (case q k of Some (v # vs) \<Rightarrow> Some v | _ \<Rightarrow> None)"

definition lat_value :: "(string \<rightharpoonup> string list) \<Rightarrow> string option" where
  "lat_value q = first_value q ''lat''"

definition long_value :: "(string \<rightharpoonup> string list) \<Rightarrow> string option" where
  "long_value q = (case first_value q ''long'' of Some v \<Rightarrow> Some v | None \<Rightarrow> first_value q ''lon'')"

text \<open>A coordinate string is rejected when it is absent or \<^verbatim>\<open>float\<close> raises on it.\<close>

definition rejected :: "env \<Rightarrow> string option \<Rightarrow> bool" where
  "rejected e v = (case v of None \<Rightarrow> True | Some s \<Rightarrow> float_str e s = None)"

section \<open>Concrete requests\<close>

text \<open>
  The environment of the examples: the clock reads 1000, both upstream requests succeed,
  the station list decodes to \<open>nodes\<close> and the Open-Meteo answer to \<open>meteo\<close>. The string
  conversion agrees with \<^verbatim>\<open>float\<close> on the strings the examples use: \<^verbatim>\<open>float('0')\<close> is 0.0,
  \<^verbatim>\<open>float('abc')\<close> raises ValueError.
\<close>

definition example_float_str :: "string \<Rightarrow> real option" where
  "example_float_str s = (if s = ''0'' then Some 0 else None)"

definition example_env :: "json \<Rightarrow> json \<Rightarrow> env" where
  "example_env nodes meteo =
     \<lparr>now = 1000,
      urlopen_nodes = Inr ''nodes'',
      urlopen_meteo = (\<lambda>lat lon. Inr ''meteo''),
      json_loads = (\<lambda>raw. if raw = ''nodes'' then Inr nodes
                           else if raw = ''meteo'' then Inr meteo
                           else Inl (UpstreamError ''invalid JSON'')),
      float_str = example_float_str\<rparr>"

definition initial_state :: state where
  "initial_state = \<lparr>cache = initial_cache, calls = []\<rparr>"

text \<open>A station with every field, at latitude 0 and the given longitude.\<close>

definition station :: "string \<Rightarrow> real \<Rightarrow> real \<Rightarrow> json" where
  "station name lon temp =
     JObj [(''long_name'', JStr name), (''latitude'', JFloat 0), (''longitude'', JFloat lon),
           (''temperature'', JFloat temp), (''relative_humidity'', JFloat 50),
           (''barometric_pressure'', JFloat 1013)]"

text \<open>A station with coordinates and no weather field.\<close>

definition bare_station :: "string \<Rightarrow> real \<Rightarrow> json" where
  "bare_station name lon =
     JObj [(''long_name'', JStr name), (''latitude'', JFloat 0), (''longitude'', JFloat lon)]"

definition meteo_with :: "json \<Rightarrow> json" where
  "meteo_with t = JObj [(''current'', JObj [(''temperature_2m'', t)])]"

text \<open>The query strings \<^verbatim>\<open>lat=0&long=0\<close> and \<^verbatim>\<open>lat=0&lon=0\<close>.\<close>

definition query_lat_long :: "string \<rightharpoonup> string list" where
  "query_lat_long = [''lat'' \<mapsto> [''0''], ''long'' \<mapsto> [''0'']]"

definition query_lat_lon :: "string \<rightharpoonup> string list" where
  "query_lat_lon = [''lat'' \<mapsto> [''0''], ''lon'' \<mapsto> [''0'']]"

section \<open>Properties of calculate_distance\<close>

lemma sin_half_radians_swap: "sin (radians (x - y) / 2) = - sin (radians (y - x) / 2)"
proof -
  have "radians (x - y) / 2 = - (radians (y - x) / 2)"
    unfolding radians_def by (simp add: field_simps)
  then show ?thesis by (simp only: sin_minus)
qed

lemma haversine_a_sym: "haversine_a lat1 lon1 lat2 lon2 = haversine_a lat2 lon2 lat1 lon1"
  unfolding haversine_a_def Let_def
  by (simp add: sin_half_radians_swap [of lat2 lat1] sin_half_radians_swap [of lon2 lon1]
      mult.commute)

lemma haversine_a_same: "haversine_a lat lon lat lon = 0"
  by (simp add: haversine_a_def radians_def)

text \<open>
  C9. \<open>calculate_distance\<close> is symmetric in its two points, and the distance from a point to
  itself is 0 (no exception is raised there).
\<close>

theorem calculate_distance_symmetric_zero:
  "calculate_distance lat1 lon1 lat2 lon2 = calculate_distance lat2 lon2 lat1 lon1
   \<and> calculate_distance lat1 lon1 lat1 lon1 = Inr 0"
proof
  show "calculate_distance lat1 lon1 lat2 lon2 = calculate_distance lat2 lon2 lat1 lon1"
    unfolding calculate_distance_def by (simp add: haversine_a_sym [of lat1 lon1 lat2 lon2])
next
  show "calculate_distance lat1 lon1 lat1 lon1 = Inr 0"
    by (simp add: calculate_distance_def haversine_a_same py_sqrt_def bind_exn_def atan2_def)
qed


section \<open>Exceptions and dictionaries\<close>

lemma bind_exn_Inl [simp]: "bind_exn (Inl x) f = Inl x"
  by (simp add: bind_exn_def)

lemma bind_exn_Inr [simp]: "bind_exn (Inr v) f = f v"
  by (simp add: bind_exn_def)

lemma bind_exn_eq_Inr: "bind_exn m f = Inr y \<longleftrightarrow> (\<exists>v. m = Inr v \<and> f v = Inr y)"
  by (cases m) simp_all

lemma dict_get_Inr: "dict_get n k = Inr v \<Longrightarrow> is_dict n"
  by (cases n) (simp_all add: is_dict_def)

lemma dict_get_is_dict: "is_dict n \<Longrightarrow> \<exists>v. dict_get n k = Inr v"
  by (cases n) (simp_all add: is_dict_def)

lemma field_present_iff: "field_present n k \<longleftrightarrow> (\<exists>v. dict_get n k = Inr v \<and> v \<noteq> JNull)"
  by (cases "dict_get n k") (simp_all add: field_present_def)

lemma field_present_truthy: "field_present n k \<Longrightarrow> truthy n"
  by (cases n) (auto simp: field_present_def split: option.splits)

lemma candidate_of_Some_shape:
  assumes "candidate_of e ulat ulon ref n = Inr (Some c)"
  shows "\<exists>vlat vlon vt vh vp lat lon d td.
           dict_get n ''latitude'' = Inr vlat \<and> vlat \<noteq> JNull \<and>
           dict_get n ''longitude'' = Inr vlon \<and> vlon \<noteq> JNull \<and>
           dict_get n ''temperature'' = Inr vt \<and> vt \<noteq> JNull \<and>
           dict_get n ''relative_humidity'' = Inr vh \<and> vh \<noteq> JNull \<and>
           dict_get n ''barometric_pressure'' = Inr vp \<and> vp \<noteq> JNull \<and>
           py_float (float_str e) vlat = Inr lat \<and>
           py_float (float_str e) vlon = Inr lon \<and>
           calculate_distance ulat ulon lat lon = Inr d \<and>
           (if ref \<noteq> JNull
            then \<exists>t r. py_float (float_str e) vt = Inr t \<and>
                       py_float (float_str e) ref = Inr r \<and> td = \<bar>t - r\<bar>
            else td = 0) \<and>
           c = \<lparr>node = n, distance_km = d, temp_diff = td\<rparr>"
  using assms
  by (auto simp: candidate_of_def bind_exn_eq_Inr split: if_splits)

lemma candidate_of_Some:
  assumes "candidate_of e ulat ulon ref n = Inr (Some c)"
  shows "node c = n \<and> complete_data n"
  using candidate_of_Some_shape [OF assms]
  by (auto simp: complete_data_def field_present_iff)

lemma candidate_of_None_iff:
  "candidate_of e ulat ulon ref n = Inr None \<longleftrightarrow> is_dict n \<and> \<not> complete_data n"
proof (cases n)
  case (JObj kvs)
  then show ?thesis
    by (auto simp: candidate_of_def complete_data_def field_present_def is_dict_def
        bind_exn_eq_Inr split: if_splits)
qed (simp_all add: candidate_of_def is_dict_def)

lemma candidate_of_temp_diff:
  assumes "candidate_of e ulat ulon ref n = Inr (Some c)"
  shows "(ref = JNull \<longrightarrow> temp_diff c = 0) \<and>
         (ref \<noteq> JNull \<longrightarrow> (\<exists>v t r. dict_get n ''temperature'' = Inr v \<and>
           py_float (float_str e) v = Inr t \<and> py_float (float_str e) ref = Inr r \<and>
           temp_diff c = \<bar>t - r\<bar>))"
  using candidate_of_Some_shape [OF assms]
  by (auto split: if_splits)

section \<open>Candidates and the head of a stable sort\<close>

lemma collect_candidates_map_filter:
  assumes "\<forall>n\<in>set ns. \<exists>r. candidate_of e ulat ulon ref n = Inr r"
  shows "collect_candidates e ulat ulon ref ns = Inr (List.map_filter (cand e ulat ulon ref) ns)"
  using assms
proof (induction ns)
  case Nil
  then show ?case by (simp add: map_filter_simps)
next
  case (Cons n ns)
  then obtain r where r: "candidate_of e ulat ulon ref n = Inr r" by auto
  from Cons have "collect_candidates e ulat ulon ref ns =
      Inr (List.map_filter (cand e ulat ulon ref) ns)" by simp
  moreover have "cand e ulat ulon ref n = r" by (simp add: cand_def r)
  ultimately show ?case using r
    by (cases r) (simp_all add: map_filter_simps)
qed

lemma collect_candidates_Inr:
  assumes "collect_candidates e ulat ulon ref ns = Inr cs"
  shows "(\<forall>n\<in>set ns. \<exists>r. candidate_of e ulat ulon ref n = Inr r)"
  using assms
proof (induction ns arbitrary: cs)
  case Nil
  then show ?case by simp
next
  case (Cons n ns)
  then show ?case by (auto simp: bind_exn_eq_Inr)
qed

lemma collect_candidates_set:
  assumes "collect_candidates e ulat ulon ref ns = Inr cs" and "c \<in> set cs"
  shows "\<exists>n\<in>set ns. candidate_of e ulat ulon ref n = Inr (Some c)"
  using assms
proof (induction ns arbitrary: cs)
  case Nil
  then show ?case by simp
next
  case (Cons n ns)
  then show ?case by (auto simp: bind_exn_eq_Inr split: option.splits)
qed

lemma hd_insort_key:
  "hd (insort_key f x ys) = (if ys = [] \<or> f x \<le> f (hd ys) then x else hd ys)"
  by (cases ys) simp_all

lemma sort_key_Nil_iff: "sort_key f xs = [] \<longleftrightarrow> xs = []"
  by (metis length_sort length_0_conv)

text \<open>The head of a stable sort is the first element with the least key.\<close>

lemma hd_sort_key_map_filter:
  fixes f :: "'a \<Rightarrow> 'k::linorder"
  assumes "List.map_filter h ns \<noteq> []"
  shows "\<exists>i<length ns. h (ns ! i) = Some (hd (sort_key f (List.map_filter h ns))) \<and>
           (\<forall>j<length ns. \<forall>c'. h (ns ! j) = Some c' \<longrightarrow>
              f (hd (sort_key f (List.map_filter h ns))) \<le> f c' \<and>
              (j < i \<longrightarrow> f (hd (sort_key f (List.map_filter h ns))) < f c'))"
  using assms
proof (induction ns)
  case Nil
  then show ?case by (simp add: map_filter_simps)
next
  case (Cons n ns)
  let ?rest = "List.map_filter h ns"
  let ?m = "hd (sort_key f ?rest)"
  show ?case
  proof (cases "h n")
    case None
    with Cons.prems have ne: "?rest \<noteq> []" by (simp add: map_filter_simps)
    from Cons.IH [OF ne] obtain i where i: "i < length ns" "h (ns ! i) = Some ?m"
      "\<forall>j<length ns. \<forall>c'. h (ns ! j) = Some c' \<longrightarrow> f ?m \<le> f c' \<and> (j < i \<longrightarrow> f ?m < f c')"
      by blast
    have eq: "List.map_filter h (n # ns) = ?rest" using None by (simp add: map_filter_simps)
    show ?thesis
      unfolding eq
    proof (intro exI [of _ "Suc i"] conjI allI impI)
      show "Suc i < length (n # ns)" using i(1) by simp
      show "h ((n # ns) ! Suc i) = Some ?m" using i(2) by simp
    next
      fix j c' assume j: "j < length (n # ns)" and c': "h ((n # ns) ! j) = Some c'"
      then obtain j' where j': "j = Suc j'" using None by (cases j) auto
      with j c' i(3) show "f ?m \<le> f c'" by auto
    next
      fix j c' assume j: "j < length (n # ns)" and c': "h ((n # ns) ! j) = Some c'"
        and lt: "j < Suc i"
      then obtain j' where j': "j = Suc j'" using None by (cases j) auto
      with j c' lt i(3) show "f ?m < f c'" by auto
    qed
  next
    case (Some x)
    have eq: "List.map_filter h (n # ns) = x # ?rest" using Some by (simp add: map_filter_simps)
    have hd_eq: "hd (sort_key f (x # ?rest)) = (if ?rest = [] \<or> f x \<le> f ?m then x else ?m)"
      by (simp add: hd_insort_key sort_key_Nil_iff)
    show ?thesis
    proof (cases "?rest = []")
      case True
      have none: "\<And>j c'. j < length ns \<Longrightarrow> h (ns ! j) = Some c' \<Longrightarrow> False"
      proof -
        fix j c' assume "j < length ns" "h (ns ! j) = Some c'"
        then have "c' \<in> set ?rest"
          by (auto simp: map_filter_def intro!: image_eqI [of _ _ "ns ! j"])
        with True show False by simp
      qed
      show ?thesis
        unfolding eq hd_eq using True Some
        by (intro exI [of _ 0]) (auto simp: nth_Cons split: nat.splits dest: none)
    next
      case False
      from Cons.IH [OF False] obtain i where i: "i < length ns" "h (ns ! i) = Some ?m"
        "\<forall>j<length ns. \<forall>c'. h (ns ! j) = Some c' \<longrightarrow> f ?m \<le> f c' \<and> (j < i \<longrightarrow> f ?m < f c')"
        by blast
      show ?thesis
      proof (cases "f x \<le> f ?m")
        case True
        have "\<forall>j<length (n # ns). \<forall>c'. h ((n # ns) ! j) = Some c' \<longrightarrow> f x \<le> f c'"
        proof (intro allI impI)
          fix j c' assume j: "j < length (n # ns)" and c': "h ((n # ns) ! j) = Some c'"
          show "f x \<le> f c'"
          proof (cases j)
            case 0
            with c' Some show ?thesis by simp
          next
            case (Suc j')
            with j c' i(3) have "f ?m \<le> f c'" by auto
            with True show ?thesis by (rule order_trans)
          qed
        qed
        then show ?thesis
          unfolding eq hd_eq using True Some
          by (intro exI [of _ 0]) auto
      next
        case nle: False
        then have lt: "f ?m < f x" by simp
        have a: "\<forall>j<length (n # ns). \<forall>c'. h ((n # ns) ! j) = Some c' \<longrightarrow>
                   f ?m \<le> f c' \<and> (j < Suc i \<longrightarrow> f ?m < f c')"
          using Some i(3) lt by (auto simp: nth_Cons split: nat.splits)
        show ?thesis
          unfolding eq hd_eq using nle False i(1,2) a
          by (intro exI [of _ "Suc i"]) auto
      qed
    qed
  qed
qed

lemma sorted_first_nonempty:
  "xs \<noteq> [] \<Longrightarrow> sorted_first f xs = Inr (hd (sort_key f xs))"
  by (cases "sort_key f xs") (simp_all add: sorted_first_def sort_key_Nil_iff)

lemma filter_map_filter:
  "filter P (List.map_filter h ns) =
   List.map_filter (\<lambda>n. case h n of None \<Rightarrow> None | Some c \<Rightarrow> if P c then Some c else None) ns"
  by (induction ns) (auto simp: map_filter_simps split: option.splits)

lemma map_filter_Nil_iff: "List.map_filter h ns = [] \<longleftrightarrow> (\<forall>n\<in>set ns. h n = None)"
  by (induction ns) (auto simp: map_filter_simps split: option.splits)

lemma cand_Some_iff:
  "cand e ulat ulon ref n = Some c \<longleftrightarrow> candidate_of e ulat ulon ref n = Inr (Some c)"
  by (cases "candidate_of e ulat ulon ref n") (simp_all add: cand_def)

lemma find_best_matching_node_eq:
  assumes "dict_get cur ''temperature_2m'' = Inr ref"
    and "\<forall>n\<in>set ns. \<exists>r. candidate_of e ulat ulon ref n = Inr r"
  shows "find_best_matching_node e ulat ulon (JArr ns) cur =
     (let cs = List.map_filter (cand e ulat ulon ref) ns;
          best = (if ref = JNull then hd (sort_key distance_km cs)
                  else if filter (\<lambda>c. temp_diff c \<le> 2) cs \<noteq> []
                  then hd (sort_key distance_km (filter (\<lambda>c. temp_diff c \<le> 2) cs))
                  else hd (sort_key (\<lambda>c. (temp_diff c, distance_km c)) cs))
      in if cs = [] then Inr None else Inr (Some (node best, best)))"
  using assms(1) collect_candidates_map_filter [OF assms(2)]
  by (simp add: find_best_matching_node_def Let_def sorted_first_nonempty)

section \<open>Properties of find_best_matching_node\<close>

lemma set_map_filter: "c \<in> set (List.map_filter h ns) \<longleftrightarrow> (\<exists>n\<in>set ns. h n = Some c)"
  by (induction ns) (auto simp: map_filter_simps split: option.splits)

lemma sorted_first_in_set: "sorted_first f xs = Inr b \<Longrightarrow> b \<in> set xs"
proof -
  assume a: "sorted_first f xs = Inr b"
  then obtain ys where "sort_key f xs = b # ys"
    by (cases "sort_key f xs") (simp_all add: sorted_first_def)
  then have "b \<in> set (sort_key f xs)" by simp
  then show ?thesis by simp
qed

lemma lex_le_iff:
  fixes a a' b b' :: real
  shows "(a, b) \<le> (a', b') \<longleftrightarrow> a < a' \<or> a = a' \<and> b \<le> b'"
  by auto

lemma lex_less_iff:
  fixes a a' b b' :: real
  shows "(a, b) < (a', b') \<longleftrightarrow> a < a' \<or> a = a' \<and> b < b'"
  by auto

text \<open>
  C6. With a null reference temperature and at least one candidate, and no station making
  the loop raise, \<open>find_best_matching_node\<close> returns the candidate with the least
  \<open>distance_km\<close>; among candidates at that distance it is the first of the input list.
\<close>

theorem select_null_reference_nearest:
  assumes ref: "dict_get cur ''temperature_2m'' = Inr JNull"
    and ok: "\<forall>n\<in>set ns. \<exists>r. candidate_of e ulat ulon JNull n = Inr r"
    and ex: "\<exists>n\<in>set ns. \<exists>c. candidate_of e ulat ulon JNull n = Inr (Some c)"
  shows "\<exists>i<length ns. \<exists>c.
           candidate_of e ulat ulon JNull (ns ! i) = Inr (Some c) \<and>
           find_best_matching_node e ulat ulon (JArr ns) cur = Inr (Some (ns ! i, c)) \<and>
           (\<forall>j<length ns. \<forall>c'. candidate_of e ulat ulon JNull (ns ! j) = Inr (Some c') \<longrightarrow>
              distance_km c \<le> distance_km c' \<and> (j < i \<longrightarrow> distance_km c < distance_km c'))"
proof -
  let ?h = "cand e ulat ulon JNull"
  let ?cs = "List.map_filter ?h ns"
  let ?b = "hd (sort_key distance_km ?cs)"
  from ex have ne: "?cs \<noteq> []"
    by (auto simp: map_filter_Nil_iff cand_Some_iff [symmetric])
  from hd_sort_key_map_filter [OF ne, of distance_km]
  obtain i where i: "i < length ns" "?h (ns ! i) = Some ?b"
    "\<forall>j<length ns. \<forall>c'. ?h (ns ! j) = Some c' \<longrightarrow>
        distance_km ?b \<le> distance_km c' \<and> (j < i \<longrightarrow> distance_km ?b < distance_km c')"
    by blast
  from i(2) have c: "candidate_of e ulat ulon JNull (ns ! i) = Inr (Some ?b)"
    by (simp add: cand_Some_iff)
  then have nd: "node ?b = ns ! i" by (simp add: candidate_of_Some)
  have res: "find_best_matching_node e ulat ulon (JArr ns) cur = Inr (Some (ns ! i, ?b))"
    using ne nd by (simp add: find_best_matching_node_eq [OF ref ok] Let_def)
  show ?thesis
    using i(1) c res i(3) unfolding cand_Some_iff by blast
qed

text \<open>
  C4. With a reference temperature and at least one candidate whose \<open>temp_diff\<close> is at most
  2, the selection is the candidate with the least \<open>distance_km\<close> among those within the
  tolerance, whatever the distances of the candidates outside it; among equally near ones
  it is the first of the input list.
\<close>

theorem select_within_tolerance_nearest:
  assumes ref: "dict_get cur ''temperature_2m'' = Inr t" and nn: "t \<noteq> JNull"
    and ok: "\<forall>n\<in>set ns. \<exists>r. candidate_of e ulat ulon t n = Inr r"
    and ex: "\<exists>n\<in>set ns. \<exists>c. candidate_of e ulat ulon t n = Inr (Some c) \<and> temp_diff c \<le> 2"
  shows "\<exists>i<length ns. \<exists>c.
           candidate_of e ulat ulon t (ns ! i) = Inr (Some c) \<and> temp_diff c \<le> 2 \<and>
           find_best_matching_node e ulat ulon (JArr ns) cur = Inr (Some (ns ! i, c)) \<and>
           (\<forall>j<length ns. \<forall>c'.
              candidate_of e ulat ulon t (ns ! j) = Inr (Some c') \<and> temp_diff c' \<le> 2 \<longrightarrow>
              distance_km c \<le> distance_km c' \<and> (j < i \<longrightarrow> distance_km c < distance_km c'))"
proof -
  let ?h = "cand e ulat ulon t"
  let ?g = "\<lambda>n. case ?h n of None \<Rightarrow> None | Some c \<Rightarrow> if temp_diff c \<le> 2 then Some c else None"
  let ?cs = "List.map_filter ?h ns"
  let ?ms = "filter (\<lambda>c. temp_diff c \<le> 2) ?cs"
  let ?b = "hd (sort_key distance_km ?ms)"
  have ms: "?ms = List.map_filter ?g ns" by (rule filter_map_filter)
  have g_iff: "\<And>n c. ?g n = Some c \<longleftrightarrow>
      candidate_of e ulat ulon t n = Inr (Some c) \<and> temp_diff c \<le> 2"
    by (auto simp: cand_Some_iff [symmetric] split: option.splits)
  from ex obtain n c where "n \<in> set ns" "?g n = Some c" unfolding g_iff by blast
  then have ne: "List.map_filter ?g ns \<noteq> []" by (auto simp: map_filter_Nil_iff)
  then have ne_ms: "?ms \<noteq> []" and ne_cs: "?cs \<noteq> []" unfolding ms [symmetric] by auto
  from hd_sort_key_map_filter [OF ne, of distance_km]
  obtain i where i: "i < length ns" "?g (ns ! i) = Some ?b"
    "\<forall>j<length ns. \<forall>c'. ?g (ns ! j) = Some c' \<longrightarrow>
        distance_km ?b \<le> distance_km c' \<and> (j < i \<longrightarrow> distance_km ?b < distance_km c')"
    unfolding ms [symmetric] by blast
  from i(2) have c: "candidate_of e ulat ulon t (ns ! i) = Inr (Some ?b)" "temp_diff ?b \<le> 2"
    unfolding g_iff by simp_all
  then have nd: "node ?b = ns ! i" by (simp add: candidate_of_Some)
  have res: "find_best_matching_node e ulat ulon (JArr ns) cur = Inr (Some (ns ! i, ?b))"
    using ne_ms ne_cs nd nn by (simp add: find_best_matching_node_eq [OF ref ok] Let_def)
  show ?thesis
    using i(1) c res i(3) unfolding g_iff by blast
qed

text \<open>
  C5. With a reference temperature, at least one candidate and no candidate within the
  tolerance, the selection is the candidate with the least pair \<open>(temp_diff, distance_km)\<close>
  in lexicographic order; among candidates with that pair it is the first of the input list.
\<close>

theorem select_outside_tolerance_lexicographic:
  assumes ref: "dict_get cur ''temperature_2m'' = Inr t" and nn: "t \<noteq> JNull"
    and ok: "\<forall>n\<in>set ns. \<exists>r. candidate_of e ulat ulon t n = Inr r"
    and ex: "\<exists>n\<in>set ns. \<exists>c. candidate_of e ulat ulon t n = Inr (Some c)"
    and out: "\<forall>n\<in>set ns. \<forall>c. candidate_of e ulat ulon t n = Inr (Some c) \<longrightarrow> 2 < temp_diff c"
  shows "\<exists>i<length ns. \<exists>c.
           candidate_of e ulat ulon t (ns ! i) = Inr (Some c) \<and>
           find_best_matching_node e ulat ulon (JArr ns) cur = Inr (Some (ns ! i, c)) \<and>
           (\<forall>j<length ns. \<forall>c'. candidate_of e ulat ulon t (ns ! j) = Inr (Some c') \<longrightarrow>
              (temp_diff c < temp_diff c' \<or>
               temp_diff c = temp_diff c' \<and> distance_km c \<le> distance_km c') \<and>
              (j < i \<longrightarrow>
                 temp_diff c < temp_diff c' \<or>
                 temp_diff c = temp_diff c' \<and> distance_km c < distance_km c'))"
proof -
  let ?h = "cand e ulat ulon t"
  let ?k = "\<lambda>c. (temp_diff c, distance_km c)"
  let ?cs = "List.map_filter ?h ns"
  let ?b = "hd (sort_key ?k ?cs)"
  from ex have ne: "?cs \<noteq> []"
    by (auto simp: map_filter_Nil_iff cand_Some_iff [symmetric])
  have "\<forall>c\<in>set ?cs. \<not> temp_diff c \<le> 2"
    using out by (fastforce simp: set_map_filter cand_Some_iff not_le)
  then have no_match: "filter (\<lambda>c. temp_diff c \<le> 2) ?cs = []"
    by (simp add: filter_empty_conv)
  from hd_sort_key_map_filter [OF ne, of ?k]
  obtain i where i: "i < length ns" "?h (ns ! i) = Some ?b"
    "\<forall>j<length ns. \<forall>c'. ?h (ns ! j) = Some c' \<longrightarrow> ?k ?b \<le> ?k c' \<and> (j < i \<longrightarrow> ?k ?b < ?k c')"
    by blast
  from i(2) have c: "candidate_of e ulat ulon t (ns ! i) = Inr (Some ?b)"
    by (simp add: cand_Some_iff)
  then have nd: "node ?b = ns ! i" by (simp add: candidate_of_Some)
  have res: "find_best_matching_node e ulat ulon (JArr ns) cur = Inr (Some (ns ! i, ?b))"
    using ne nd nn no_match by (simp add: find_best_matching_node_eq [OF ref ok] Let_def)
  have lex: "\<forall>j<length ns. \<forall>c'. candidate_of e ulat ulon t (ns ! j) = Inr (Some c') \<longrightarrow>
              (temp_diff ?b < temp_diff c' \<or>
               temp_diff ?b = temp_diff c' \<and> distance_km ?b \<le> distance_km c') \<and>
              (j < i \<longrightarrow>
                 temp_diff ?b < temp_diff c' \<or>
                 temp_diff ?b = temp_diff c' \<and> distance_km ?b < distance_km c')"
    using i(3) unfolding cand_Some_iff lex_le_iff lex_less_iff .
  show ?thesis
    using i(1) c res lex by blast
qed

lemma find_best_matching_node_Some:
  assumes "find_best_matching_node e ulat ulon (JArr ns) cur = Inr (Some (n, best))"
  shows "\<exists>ref. dict_get cur ''temperature_2m'' = Inr ref \<and> n \<in> set ns \<and>
           candidate_of e ulat ulon ref n = Inr (Some best)"
proof -
  from assms obtain ref cs where ref: "dict_get cur ''temperature_2m'' = Inr ref"
    and cs: "collect_candidates e ulat ulon ref ns = Inr cs"
    and sel: "(if cs = [] then Inr None
               else if ref = JNull then
                 bind_exn (sorted_first distance_km cs) (\<lambda>best. Inr (Some (node best, best)))
               else
                 (let matching = filter (\<lambda>c. temp_diff c \<le> 2) cs
                  in if matching \<noteq> [] then
                       bind_exn (sorted_first distance_km matching)
                         (\<lambda>best. Inr (Some (node best, best)))
                     else
                       bind_exn (sorted_first (\<lambda>c. (temp_diff c, distance_km c)) cs)
                         (\<lambda>best. Inr (Some (node best, best))))) = Inr (Some (n, best))"
    unfolding find_best_matching_node_def bind_exn_eq_Inr by auto
  from sel have "best \<in> set cs \<and> node best = n"
    by (auto simp: bind_exn_eq_Inr Let_def split: if_splits dest: sorted_first_in_set)
  then have b: "best \<in> set cs" and nd: "node best = n" by simp_all
  from collect_candidates_set [OF cs b] obtain n' where
    n': "n' \<in> set ns" "candidate_of e ulat ulon ref n' = Inr (Some best)" by blast
  from candidate_of_Some [OF n'(2)] nd have "n' = n" by auto
  with n' ref show ?thesis by blast
qed

text \<open>
  C3. A station that \<open>find_best_matching_node\<close> returns is a station of the input list with
  latitude, longitude, temperature, relative_humidity and barometric_pressure all present.
\<close>

theorem select_returns_complete_station:
  assumes "find_best_matching_node e ulat ulon (JArr ns) cur = Inr (Some (n, best))"
  shows "n \<in> set ns \<and> node best = n \<and>
         field_present n ''latitude'' \<and> field_present n ''longitude'' \<and>
         field_present n ''temperature'' \<and> field_present n ''relative_humidity'' \<and>
         field_present n ''barometric_pressure''"
proof -
  from find_best_matching_node_Some [OF assms] obtain ref where
    n: "n \<in> set ns" "candidate_of e ulat ulon ref n = Inr (Some best)" by blast
  from candidate_of_Some [OF n(2)] n(1) show ?thesis by (simp add: complete_data_def)
qed

section \<open>The selection at concrete stations\<close>

lemma calculate_distance_origin_0: "calculate_distance 0 0 0 0 = Inr 0"
  by (simp add: calculate_distance_def haversine_a_def radians_def py_sqrt_def atan2_def)

lemma calculate_distance_origin_180: "calculate_distance 0 0 0 180 = Inr (6371 * pi)"
  by (simp add: calculate_distance_def haversine_a_def radians_def py_sqrt_def atan2_def)

lemma candidate_of_station_null:
  assumes "calculate_distance 0 0 0 lon = Inr d"
  shows "candidate_of e 0 0 JNull (station nm lon temp) =
         Inr (Some \<lparr>node = station nm lon temp, distance_km = d, temp_diff = 0\<rparr>)"
  using assms by (simp add: candidate_of_def station_def)

lemma candidate_of_station_ref:
  assumes "calculate_distance 0 0 0 lon = Inr d"
  shows "candidate_of e 0 0 (JFloat r) (station nm lon temp) =
         Inr (Some \<lparr>node = station nm lon temp, distance_km = d, temp_diff = \<bar>temp - r\<bar>\<rparr>)"
  using assms by (simp add: candidate_of_def station_def)

lemma candidate_of_bare_station:
  "candidate_of e ulat ulon ref (bare_station nm lon) = Inr None"
  by (simp add: candidate_of_def bare_station_def)

lemmas candidate_of_examples =
  candidate_of_station_null [OF calculate_distance_origin_0]
  candidate_of_station_null [OF calculate_distance_origin_180]
  candidate_of_station_ref [OF calculate_distance_origin_0]
  candidate_of_station_ref [OF calculate_distance_origin_180]
  candidate_of_bare_station

text \<open>C6 at three stations: A is far, B and C are at the user's position; B is selected.\<close>

theorem select_null_reference_nearest_witness:
  "dict_get (JObj []) ''temperature_2m'' = Inr JNull \<and>
   candidate_of (example_env JNull JNull) 0 0 JNull (station ''A'' 180 20) =
     Inr (Some \<lparr>node = station ''A'' 180 20, distance_km = 6371 * pi, temp_diff = 0\<rparr>) \<and>
   candidate_of (example_env JNull JNull) 0 0 JNull (station ''B'' 0 25) =
     Inr (Some \<lparr>node = station ''B'' 0 25, distance_km = 0, temp_diff = 0\<rparr>) \<and>
   candidate_of (example_env JNull JNull) 0 0 JNull (station ''C'' 0 30) =
     Inr (Some \<lparr>node = station ''C'' 0 30, distance_km = 0, temp_diff = 0\<rparr>) \<and>
   find_best_matching_node (example_env JNull JNull) 0 0
     (JArr [station ''A'' 180 20, station ''B'' 0 25, station ''C'' 0 30]) (JObj []) =
   Inr (Some (station ''B'' 0 25,
              \<lparr>node = station ''B'' 0 25, distance_km = 0, temp_diff = 0\<rparr>))"
proof -
  let ?e = "example_env JNull JNull"
  let ?ns = "[station ''A'' 180 20, station ''B'' 0 25, station ''C'' 0 30]"
  have h1: "dict_get (JObj []) ''temperature_2m'' = Inr JNull" by simp
  have h2: "\<forall>n\<in>set ?ns. \<exists>r. candidate_of ?e 0 0 JNull n = Inr r"
    by (simp add: candidate_of_examples)
  have h3: "\<exists>n\<in>set ?ns. \<exists>c. candidate_of ?e 0 0 JNull n = Inr (Some c)"
    by (simp add: candidate_of_examples)
  from select_null_reference_nearest [OF h1 h2 h3]
  obtain i c where i: "i < length ?ns" "candidate_of ?e 0 0 JNull (?ns ! i) = Inr (Some c)"
    "find_best_matching_node ?e 0 0 (JArr ?ns) (JObj []) = Inr (Some (?ns ! i, c))"
    "\<forall>j<length ?ns. \<forall>c'. candidate_of ?e 0 0 JNull (?ns ! j) = Inr (Some c') \<longrightarrow>
        distance_km c \<le> distance_km c' \<and> (j < i \<longrightarrow> distance_km c < distance_km c')"
    by blast
  from i(1) have "i = 0 \<or> i = 1 \<or> i = 2" by auto
  moreover have "i \<noteq> 0"
  proof
    assume "i = 0"
    with i(2) have "distance_km c = 6371 * pi" by (auto simp: candidate_of_examples)
    moreover from i(4) have "distance_km c \<le> 0"
      by (auto simp: candidate_of_examples dest!: spec [of _ 1])
    ultimately show False using pi_gt_zero by simp
  qed
  moreover have "i \<noteq> 2"
  proof
    assume "i = 2"
    with i(2) have "distance_km c = 0" by (auto simp: candidate_of_examples)
    moreover from i(4) \<open>i = 2\<close> have "distance_km c < 0"
      by (auto simp: candidate_of_examples dest!: spec [of _ 1])
    ultimately show False by simp
  qed
  ultimately have "i = 1" by blast
  with i(2,3) have "find_best_matching_node ?e 0 0 (JArr ?ns) (JObj []) =
      Inr (Some (station ''B'' 0 25,
                 \<lparr>node = station ''B'' 0 25, distance_km = 0, temp_diff = 0\<rparr>))"
    by (auto simp: candidate_of_examples)
  with h1 show ?thesis by (simp add: candidate_of_examples)
qed

text \<open>C4 at three stations: A is nearest but 5 degrees off, B and C are far and 1 degree
  off; B is selected.\<close>

theorem select_within_tolerance_nearest_witness:
  "dict_get (JObj [(''temperature_2m'', JFloat 20)]) ''temperature_2m'' = Inr (JFloat 20) \<and>
   JFloat 20 \<noteq> JNull \<and>
   candidate_of (example_env JNull JNull) 0 0 (JFloat 20) (station ''A'' 0 25) =
     Inr (Some \<lparr>node = station ''A'' 0 25, distance_km = 0, temp_diff = 5\<rparr>) \<and>
   candidate_of (example_env JNull JNull) 0 0 (JFloat 20) (station ''B'' 180 21) =
     Inr (Some \<lparr>node = station ''B'' 180 21, distance_km = 6371 * pi, temp_diff = 1\<rparr>) \<and>
   candidate_of (example_env JNull JNull) 0 0 (JFloat 20) (station ''C'' 180 19) =
     Inr (Some \<lparr>node = station ''C'' 180 19, distance_km = 6371 * pi, temp_diff = 1\<rparr>) \<and>
   find_best_matching_node (example_env JNull JNull) 0 0
     (JArr [station ''A'' 0 25, station ''B'' 180 21, station ''C'' 180 19])
     (JObj [(''temperature_2m'', JFloat 20)]) =
   Inr (Some (station ''B'' 180 21,
              \<lparr>node = station ''B'' 180 21, distance_km = 6371 * pi, temp_diff = 1\<rparr>))"
proof -
  let ?e = "example_env JNull JNull"
  let ?ns = "[station ''A'' 0 25, station ''B'' 180 21, station ''C'' 180 19]"
  let ?cur = "JObj [(''temperature_2m'', JFloat 20)]"
  have h1: "dict_get ?cur ''temperature_2m'' = Inr (JFloat 20)" by simp
  have h2: "JFloat 20 \<noteq> JNull" by simp
  have h3: "\<forall>n\<in>set ?ns. \<exists>r. candidate_of ?e 0 0 (JFloat 20) n = Inr r"
    by (simp add: candidate_of_examples)
  have h4: "\<exists>n\<in>set ?ns. \<exists>c. candidate_of ?e 0 0 (JFloat 20) n = Inr (Some c) \<and> temp_diff c \<le> 2"
    by (simp add: candidate_of_examples)
  from select_within_tolerance_nearest [OF h1 h2 h3 h4]
  obtain i c where i: "i < length ?ns"
    "candidate_of ?e 0 0 (JFloat 20) (?ns ! i) = Inr (Some c)" "temp_diff c \<le> 2"
    "find_best_matching_node ?e 0 0 (JArr ?ns) ?cur = Inr (Some (?ns ! i, c))"
    "\<forall>j<length ?ns. \<forall>c'.
        candidate_of ?e 0 0 (JFloat 20) (?ns ! j) = Inr (Some c') \<and> temp_diff c' \<le> 2 \<longrightarrow>
        distance_km c \<le> distance_km c' \<and> (j < i \<longrightarrow> distance_km c < distance_km c')"
    by blast
  from i(1) have "i = 0 \<or> i = 1 \<or> i = 2" by auto
  moreover have "i \<noteq> 0"
  proof
    assume "i = 0"
    with i(2) have "temp_diff c = 5" by (auto simp: candidate_of_examples)
    with i(3) show False by simp
  qed
  moreover have "i \<noteq> 2"
  proof
    assume "i = 2"
    with i(2) have "distance_km c = 6371 * pi" by (auto simp: candidate_of_examples)
    moreover from i(5) \<open>i = 2\<close> have "distance_km c < 6371 * pi"
      by (auto simp: candidate_of_examples dest!: spec [of _ 1])
    ultimately show False by simp
  qed
  ultimately have "i = 1" by blast
  with i(2,4) have "find_best_matching_node ?e 0 0 (JArr ?ns) ?cur =
      Inr (Some (station ''B'' 180 21,
                 \<lparr>node = station ''B'' 180 21, distance_km = 6371 * pi, temp_diff = 1\<rparr>))"
    by (auto simp: candidate_of_examples)
  with h1 show ?thesis by (simp add: candidate_of_examples)
qed

text \<open>C5 at three stations: A and B are 3 degrees off, A far and B near, C is near and
  10 degrees off; B is selected.\<close>

theorem select_outside_tolerance_lexicographic_witness:
  "dict_get (JObj [(''temperature_2m'', JFloat 20)]) ''temperature_2m'' = Inr (JFloat 20) \<and>
   JFloat 20 \<noteq> JNull \<and>
   candidate_of (example_env JNull JNull) 0 0 (JFloat 20) (station ''A'' 180 23) =
     Inr (Some \<lparr>node = station ''A'' 180 23, distance_km = 6371 * pi, temp_diff = 3\<rparr>) \<and>
   candidate_of (example_env JNull JNull) 0 0 (JFloat 20) (station ''B'' 0 23) =
     Inr (Some \<lparr>node = station ''B'' 0 23, distance_km = 0, temp_diff = 3\<rparr>) \<and>
   candidate_of (example_env JNull JNull) 0 0 (JFloat 20) (station ''C'' 0 30) =
     Inr (Some \<lparr>node = station ''C'' 0 30, distance_km = 0, temp_diff = 10\<rparr>) \<and>
   find_best_matching_node (example_env JNull JNull) 0 0
     (JArr [station ''A'' 180 23, station ''B'' 0 23, station ''C'' 0 30])
     (JObj [(''temperature_2m'', JFloat 20)]) =
   Inr (Some (station ''B'' 0 23,
              \<lparr>node = station ''B'' 0 23, distance_km = 0, temp_diff = 3\<rparr>))"
proof -
  let ?e = "example_env JNull JNull"
  let ?ns = "[station ''A'' 180 23, station ''B'' 0 23, station ''C'' 0 30]"
  let ?cur = "JObj [(''temperature_2m'', JFloat 20)]"
  have h1: "dict_get ?cur ''temperature_2m'' = Inr (JFloat 20)" by simp
  have h2: "JFloat 20 \<noteq> JNull" by simp
  have h3: "\<forall>n\<in>set ?ns. \<exists>r. candidate_of ?e 0 0 (JFloat 20) n = Inr r"
    by (simp add: candidate_of_examples)
  have h4: "\<exists>n\<in>set ?ns. \<exists>c. candidate_of ?e 0 0 (JFloat 20) n = Inr (Some c)"
    by (simp add: candidate_of_examples)
  have h5: "\<forall>n\<in>set ?ns. \<forall>c. candidate_of ?e 0 0 (JFloat 20) n = Inr (Some c) \<longrightarrow> 2 < temp_diff c"
    by (auto simp: candidate_of_examples)
  from select_outside_tolerance_lexicographic [OF h1 h2 h3 h4 h5]
  obtain i c where i: "i < length ?ns"
    "candidate_of ?e 0 0 (JFloat 20) (?ns ! i) = Inr (Some c)"
    "find_best_matching_node ?e 0 0 (JArr ?ns) ?cur = Inr (Some (?ns ! i, c))"
    "\<forall>j<length ?ns. \<forall>c'. candidate_of ?e 0 0 (JFloat 20) (?ns ! j) = Inr (Some c') \<longrightarrow>
        (temp_diff c < temp_diff c' \<or>
         temp_diff c = temp_diff c' \<and> distance_km c \<le> distance_km c') \<and>
        (j < i \<longrightarrow>
           temp_diff c < temp_diff c' \<or>
           temp_diff c = temp_diff c' \<and> distance_km c < distance_km c')"
    by blast
  from i(1) have "i = 0 \<or> i = 1 \<or> i = 2" by auto
  moreover have "i \<noteq> 0"
  proof
    assume "i = 0"
    with i(2) have "temp_diff c = 3" "distance_km c = 6371 * pi"
      by (auto simp: candidate_of_examples)
    moreover from i(4) have "temp_diff c < 3 \<or> temp_diff c = 3 \<and> distance_km c \<le> 0"
      by (auto simp: candidate_of_examples dest!: spec [of _ 1])
    ultimately show False using pi_gt_zero by simp
  qed
  moreover have "i \<noteq> 2"
  proof
    assume "i = 2"
    with i(2) have "temp_diff c = 10" by (auto simp: candidate_of_examples)
    moreover from i(4) have "temp_diff c < 3 \<or> temp_diff c = 3 \<and> distance_km c \<le> 0"
      by (auto simp: candidate_of_examples dest!: spec [of _ 1])
    ultimately show False by simp
  qed
  ultimately have "i = 1" by blast
  with i(2,3) have "find_best_matching_node ?e 0 0 (JArr ?ns) ?cur =
      Inr (Some (station ''B'' 0 23,
                 \<lparr>node = station ''B'' 0 23, distance_km = 0, temp_diff = 3\<rparr>))"
    by (auto simp: candidate_of_examples)
  with h1 show ?thesis by (simp add: candidate_of_examples)
qed

lemma sorted_first_single: "sorted_first f [x] = Inr x"
  by (simp add: sorted_first_def)

lemma find_best_example_bare_then_complete:
  "find_best_matching_node e 0 0 (JArr [bare_station ''X'' 0, station ''B'' 0 25]) (JObj []) =
   Inr (Some (station ''B'' 0 25,
              \<lparr>node = station ''B'' 0 25, distance_km = 0, temp_diff = 0\<rparr>))"
  by (simp add: find_best_matching_node_def candidate_of_examples sorted_first_single)

text \<open>C3 at a list of a station without weather fields and a complete one.\<close>

theorem select_returns_complete_station_witness:
  "find_best_matching_node (example_env JNull JNull) 0 0
     (JArr [bare_station ''X'' 0, station ''B'' 0 25]) (JObj []) =
   Inr (Some (station ''B'' 0 25,
              \<lparr>node = station ''B'' 0 25, distance_km = 0, temp_diff = 0\<rparr>)) \<and>
   station ''B'' 0 25 \<in> set [bare_station ''X'' 0, station ''B'' 0 25] \<and>
   field_present (station ''B'' 0 25) ''latitude'' \<and>
   field_present (station ''B'' 0 25) ''longitude'' \<and>
   field_present (station ''B'' 0 25) ''temperature'' \<and>
   field_present (station ''B'' 0 25) ''relative_humidity'' \<and>
   field_present (station ''B'' 0 25) ''barometric_pressure'' \<and>
   \<not> field_present (bare_station ''X'' 0) ''temperature''"
proof -
  have h: "find_best_matching_node (example_env JNull JNull) 0 0
     (JArr [bare_station ''X'' 0, station ''B'' 0 25]) (JObj []) =
   Inr (Some (station ''B'' 0 25,
              \<lparr>node = station ''B'' 0 25, distance_km = 0, temp_diff = 0\<rparr>))"
    by (rule find_best_example_bare_then_complete)
  have "\<not> field_present (bare_station ''X'' 0) ''temperature''"
    by (simp add: field_present_def bare_station_def)
  with h select_returns_complete_station [OF h] show ?thesis by simp
qed

section \<open>Properties of get_nodes_data\<close>

lemma get_nodes_data_empty:
  assumes "data (cache st) = None" and "urlopen_nodes e = Inr d"
  shows "get_nodes_data e st =
         (Inr (d, MISS), st\<lparr>cache := \<lparr>data = Some d, timestamp = now e\<rparr>,
                             calls := calls st @ [FetchNodes]\<rparr>)"
  using assms by (simp add: get_nodes_data_def)

lemma get_nodes_data_hit:
  assumes "data (cache st) = Some d0" and "now e - timestamp (cache st) < 300"
  shows "get_nodes_data e st = (Inr (d0, HIT), st)"
  using assms by (simp add: get_nodes_data_def CACHE_DURATION_def)

lemma get_nodes_data_expired:
  assumes "300 \<le> now e - timestamp (cache st)" and "urlopen_nodes e = Inr d"
  shows "get_nodes_data e st =
         (Inr (d, MISS), st\<lparr>cache := \<lparr>data = Some d, timestamp = now e\<rparr>,
                             calls := calls st @ [FetchNodes]\<rparr>)"
  using assms by (simp add: get_nodes_data_def CACHE_DURATION_def Let_def split: option.splits)

lemma get_nodes_data_failure:
  assumes "urlopen_nodes e = Inl x"
    and "data (cache st) = None \<or> CACHE_DURATION \<le> now e - timestamp (cache st)"
  shows "get_nodes_data e st = (Inl x, st\<lparr>calls := calls st @ [FetchNodes]\<rparr>)"
  using assms by (auto simp: get_nodes_data_def Let_def split: option.splits)

text \<open>
  C7. From the empty cache a first call whose fetch succeeds answers MISS and stores the
  data with the time of the call. A later call less than 300 seconds after that time
  answers HIT with the stored data and leaves the state as it is. A later call 300 seconds
  or more after it, whose fetch succeeds, answers MISS and replaces both the data and the
  timestamp.
\<close>

theorem get_nodes_data_miss_hit_miss:
  assumes "cache st0 = initial_cache" and "urlopen_nodes e1 = Inr d1"
  shows "fst (get_nodes_data e1 st0) = Inr (d1, MISS) \<and>
         cache (snd (get_nodes_data e1 st0)) = \<lparr>data = Some d1, timestamp = now e1\<rparr> \<and>
         (now e2 - now e1 < 300 \<longrightarrow>
            get_nodes_data e2 (snd (get_nodes_data e1 st0)) =
            (Inr (d1, HIT), snd (get_nodes_data e1 st0))) \<and>
         (300 \<le> now e3 - now e1 \<and> urlopen_nodes e3 = Inr d3 \<longrightarrow>
            fst (get_nodes_data e3 (snd (get_nodes_data e1 st0))) = Inr (d3, MISS) \<and>
            cache (snd (get_nodes_data e3 (snd (get_nodes_data e1 st0)))) =
            \<lparr>data = Some d3, timestamp = now e3\<rparr>)"
proof -
  let ?st1 = "st0\<lparr>cache := \<lparr>data = Some d1, timestamp = now e1\<rparr>,
                  calls := calls st0 @ [FetchNodes]\<rparr>"
  from assms have first: "get_nodes_data e1 st0 = (Inr (d1, MISS), ?st1)"
    by (intro get_nodes_data_empty) (simp_all add: initial_cache_def)
  have hit: "now e2 - now e1 < 300 \<Longrightarrow> get_nodes_data e2 ?st1 = (Inr (d1, HIT), ?st1)"
    by (rule get_nodes_data_hit) simp_all
  have miss: "300 \<le> now e3 - now e1 \<Longrightarrow> urlopen_nodes e3 = Inr d3 \<Longrightarrow>
      get_nodes_data e3 ?st1 =
      (Inr (d3, MISS), ?st1\<lparr>cache := \<lparr>data = Some d3, timestamp = now e3\<rparr>,
                            calls := calls ?st1 @ [FetchNodes]\<rparr>)"
    by (rule get_nodes_data_expired) simp_all
  show ?thesis
    unfolding first using hit miss by simp
qed

text \<open>C7 with calls at times 1000, 1299 and 1300.\<close>

theorem get_nodes_data_miss_hit_miss_witness:
  "fst (get_nodes_data (example_env JNull JNull) initial_state) = Inr (''nodes'', MISS) \<and>
   get_nodes_data (example_env JNull JNull\<lparr>now := 1299\<rparr>)
     (snd (get_nodes_data (example_env JNull JNull) initial_state)) =
   (Inr (''nodes'', HIT), snd (get_nodes_data (example_env JNull JNull) initial_state)) \<and>
   fst (get_nodes_data (example_env JNull JNull\<lparr>now := 1300, urlopen_nodes := Inr ''fresh''\<rparr>)
     (snd (get_nodes_data (example_env JNull JNull) initial_state))) = Inr (''fresh'', MISS) \<and>
   cache (snd (get_nodes_data
     (example_env JNull JNull\<lparr>now := 1300, urlopen_nodes := Inr ''fresh''\<rparr>)
     (snd (get_nodes_data (example_env JNull JNull) initial_state)))) =
   \<lparr>data = Some ''fresh'', timestamp = 1300\<rparr>"
proof -
  let ?e1 = "example_env JNull JNull"
  let ?e2 = "?e1\<lparr>now := 1299\<rparr>"
  let ?e3 = "?e1\<lparr>now := 1300, urlopen_nodes := Inr ''fresh''\<rparr>"
  have h1: "cache initial_state = initial_cache" by (simp add: initial_state_def)
  have h2: "urlopen_nodes ?e1 = Inr ''nodes''" by (simp add: example_env_def)
  have h3: "now ?e2 - now ?e1 < 300" by (simp add: example_env_def)
  have h4: "300 \<le> now ?e3 - now ?e1 \<and> urlopen_nodes ?e3 = Inr ''fresh''"
    by (simp add: example_env_def)
  have n3: "now ?e3 = 1300" by simp
  from get_nodes_data_miss_hit_miss [OF h1 h2, of ?e2 ?e3 "''fresh''"] h3 h4
  show ?thesis unfolding n3 by blast
qed

section \<open>Properties of handle_api\<close>

lemma parse_lat_eq:
  assumes "q ''lat'' \<noteq> Some []"
  shows "parse_coordinate e q ''lat'' None =
         (case lat_value q of
            None \<Rightarrow> Inr None
          | Some v \<Rightarrow> (case float_str e v of None \<Rightarrow> Inl ValueError | Some r \<Rightarrow> Inr (Some r)))"
  using assms
  by (auto simp: parse_coordinate_def query_first_def lat_value_def first_value_def
      split: option.splits list.splits)

lemma parse_long_eq:
  assumes "q ''long'' \<noteq> Some []" and "q ''lon'' \<noteq> Some []"
  shows "parse_coordinate e q ''long'' (Some ''lon'') =
         (case long_value q of
            None \<Rightarrow> Inr None
          | Some v \<Rightarrow> (case float_str e v of None \<Rightarrow> Inl ValueError | Some r \<Rightarrow> Inr (Some r)))"
  using assms
  by (auto simp: parse_coordinate_def query_first_def long_value_def first_value_def
      split: option.splits list.splits)

lemma handle_api_parsed:
  assumes "parse_coordinate e q ''lat'' None = Inr (Some ulat)"
    and "parse_coordinate e q ''long'' (Some ''lon'') = Inr (Some ulon)"
  shows "handle_api e st q =
         (case api_try e st ulat ulon of
            (Inl x, st') \<Rightarrow> (Inr (send_json (ErrorJson (Raised x)) 500 None), st')
          | (Inr r, st') \<Rightarrow> (Inr r, st'))"
  using assms by (simp add: handle_api_def)

text \<open>
  C10, amended. For a request as \<^verbatim>\<open>parse_qs\<close> delivers it (no key with an empty value list)
  in which \<^verbatim>\<open>lat\<close> is absent, or \<^verbatim>\<open>long\<close> and \<^verbatim>\<open>lon\<close> are both absent, or \<^verbatim>\<open>float\<close> raises
  ValueError on a supplied value: the answer is one of the two 400 error bodies and the
  state (the cache and the list of upstream requests) is unchanged.
\<close>

theorem handle_api_rejects_coordinates:
  assumes "q ''lat'' \<noteq> Some []" and "q ''long'' \<noteq> Some []" and "q ''lon'' \<noteq> Some []"
    and "rejected e (lat_value q) \<or> rejected e (long_value q)"
  shows "handle_api e st q = (Inr (send_json (ErrorJson InvalidCoordinates) 400 None), st) \<or>
         handle_api e st q = (Inr (send_json (ErrorJson MissingParameters) 400 None), st)"
  using assms(4)
  unfolding handle_api_def parse_lat_eq [where q = q, OF assms(1)]
    parse_long_eq [where q = q, OF assms(2,3)]
  by (auto simp: rejected_def split: option.splits)

lemma lat_value_query [simp]:
  "lat_value query_lat_long = Some ''0''" "long_value query_lat_long = Some ''0''"
  "lat_value query_lat_lon = Some ''0''" "long_value query_lat_lon = Some ''0''"
  by (simp_all add: lat_value_def long_value_def first_value_def query_lat_long_def
      query_lat_lon_def)

text \<open>C10, amended, at a request with \<^verbatim>\<open>lat=abc\<close>, one without \<^verbatim>\<open>lat\<close> and one with
  neither \<^verbatim>\<open>long\<close> nor \<^verbatim>\<open>lon\<close>.\<close>

theorem handle_api_rejects_coordinates_witness:
  "handle_api (example_env JNull JNull) initial_state [''lat'' \<mapsto> [''abc''], ''long'' \<mapsto> [''0'']] =
     (Inr (send_json (ErrorJson InvalidCoordinates) 400 None), initial_state) \<and>
   handle_api (example_env JNull JNull) initial_state [''long'' \<mapsto> [''0'']] =
     (Inr (send_json (ErrorJson MissingParameters) 400 None), initial_state) \<and>
   handle_api (example_env JNull JNull) initial_state [''lat'' \<mapsto> [''0'']] =
     (Inr (send_json (ErrorJson MissingParameters) 400 None), initial_state)"
proof -
  let ?e = "example_env JNull JNull"
  let ?q1 = "[''lat'' \<mapsto> [''abc''], ''long'' \<mapsto> [''0'']]"
  let ?q2 = "[''long'' \<mapsto> [''0'']] :: string \<rightharpoonup> string list"
  let ?q3 = "[''lat'' \<mapsto> [''0'']] :: string \<rightharpoonup> string list"
  have a1: "?q1 ''lat'' \<noteq> Some []" "?q1 ''long'' \<noteq> Some []" "?q1 ''lon'' \<noteq> Some []"
    by simp_all
  have r1: "rejected ?e (lat_value ?q1) \<or> rejected ?e (long_value ?q1)"
    by (simp add: rejected_def lat_value_def first_value_def example_env_def
        example_float_str_def)
  have n1: "handle_api ?e initial_state ?q1 \<noteq>
      (Inr (send_json (ErrorJson MissingParameters) 400 None), initial_state)"
    by (simp add: handle_api_def parse_coordinate_def query_first_def example_env_def
        example_float_str_def send_json_def)
  have a2: "?q2 ''lat'' \<noteq> Some []" "?q2 ''long'' \<noteq> Some []" "?q2 ''lon'' \<noteq> Some []"
    by simp_all
  have r2: "rejected ?e (lat_value ?q2) \<or> rejected ?e (long_value ?q2)"
    by (simp add: rejected_def lat_value_def first_value_def)
  have n2: "handle_api ?e initial_state ?q2 \<noteq>
      (Inr (send_json (ErrorJson InvalidCoordinates) 400 None), initial_state)"
    by (simp add: handle_api_def parse_coordinate_def query_first_def example_env_def
        example_float_str_def send_json_def)
  have a3: "?q3 ''lat'' \<noteq> Some []" "?q3 ''long'' \<noteq> Some []" "?q3 ''lon'' \<noteq> Some []"
    by simp_all
  have r3: "rejected ?e (lat_value ?q3) \<or> rejected ?e (long_value ?q3)"
    by (simp add: rejected_def long_value_def first_value_def)
  have n3: "handle_api ?e initial_state ?q3 \<noteq>
      (Inr (send_json (ErrorJson InvalidCoordinates) 400 None), initial_state)"
    by (simp add: handle_api_def parse_coordinate_def query_first_def example_env_def
        example_float_str_def send_json_def)
  from handle_api_rejects_coordinates [where q = ?q1, OF a1 r1, of initial_state] n1
       handle_api_rejects_coordinates [where q = ?q2, OF a2 r2, of initial_state] n2
       handle_api_rejects_coordinates [where q = ?q3, OF a3 r3, of initial_state] n3
  show ?thesis by blast
qed

text \<open>
  C8. When the cache holds no fresh entry and the fetch of the station list raises,
  \<open>get_nodes_data\<close> raises the same exception and the cache keeps its data and timestamp;
  \<open>handle_api\<close> answers 500 with that exception and \<open>proxy_nodes\<close> answers 500, both with
  the cache unchanged and without serving the stale data.
\<close>

theorem fetch_failure_keeps_cache:
  assumes fail: "urlopen_nodes e = Inl x"
    and miss: "data (cache st) = None \<or> CACHE_DURATION \<le> now e - timestamp (cache st)"
    and lat: "parse_coordinate e q ''lat'' None = Inr (Some ulat)"
    and lon: "parse_coordinate e q ''long'' (Some ''lon'') = Inr (Some ulon)"
  shows "fst (get_nodes_data e st) = Inl x \<and>
         cache (snd (get_nodes_data e st)) = cache st \<and>
         fst (handle_api e st q) = Inr (send_json (ErrorJson (Raised x)) 500 None) \<and>
         cache (snd (handle_api e st q)) = cache st \<and>
         fst (proxy_nodes e st) = \<lparr>status = 500, body = ErrorPage x, x_cache_status = None\<rparr> \<and>
         cache (snd (proxy_nodes e st)) = cache st"
  using get_nodes_data_failure [OF fail miss]
  by (simp add: handle_api_parsed [OF lat lon] api_try_def proxy_nodes_def)

text \<open>C8 with a stale entry of time 0 at time 1000.\<close>

theorem fetch_failure_keeps_cache_witness:
  "fst (handle_api (example_env JNull JNull\<lparr>urlopen_nodes := Inl (UpstreamError ''timed out'')\<rparr>)
         \<lparr>cache = \<lparr>data = Some ''stale'', timestamp = 0\<rparr>, calls = []\<rparr> query_lat_long) =
     Inr (send_json (ErrorJson (Raised (UpstreamError ''timed out''))) 500 None) \<and>
   cache (snd (handle_api
         (example_env JNull JNull\<lparr>urlopen_nodes := Inl (UpstreamError ''timed out'')\<rparr>)
         \<lparr>cache = \<lparr>data = Some ''stale'', timestamp = 0\<rparr>, calls = []\<rparr> query_lat_long)) =
     \<lparr>data = Some ''stale'', timestamp = 0\<rparr>"
proof -
  let ?e = "example_env JNull JNull\<lparr>urlopen_nodes := Inl (UpstreamError ''timed out'')\<rparr>"
  let ?st = "\<lparr>cache = \<lparr>data = Some ''stale'', timestamp = 0\<rparr>, calls = []\<rparr>"
  have h1: "urlopen_nodes ?e = Inl (UpstreamError ''timed out'')" by simp
  have h2: "data (cache ?st) = None \<or> CACHE_DURATION \<le> now ?e - timestamp (cache ?st)"
    by (simp add: CACHE_DURATION_def example_env_def)
  have h3: "parse_coordinate ?e query_lat_long ''lat'' None = Inr (Some 0)"
    by (simp add: parse_coordinate_def query_first_def query_lat_long_def example_env_def
        example_float_str_def)
  have h4: "parse_coordinate ?e query_lat_long ''long'' (Some ''lon'') = Inr (Some 0)"
    by (simp add: parse_coordinate_def query_first_def query_lat_long_def example_env_def
        example_float_str_def)
  from fetch_failure_keeps_cache [OF h1 h2 h3 h4]
  show ?thesis by simp
qed

section \<open>The fallback on distance alone\<close>

lemma collect_candidates_Nil:
  assumes "collect_candidates e ulat ulon ref ns = Inr []"
  shows "\<forall>n\<in>set ns. candidate_of e ulat ulon ref n = Inr None"
  using assms
proof (induction ns)
  case Nil
  then show ?case by simp
next
  case (Cons n ns)
  then show ?case by (auto simp: bind_exn_eq_Inr split: option.splits)
qed

lemma find_best_matching_node_None:
  assumes "find_best_matching_node e ulat ulon (JArr ns) cur = Inr None"
  shows "\<forall>n\<in>set ns. \<not> complete_data n"
proof -
  from assms obtain ref cs where cs: "collect_candidates e ulat ulon ref ns = Inr cs"
    and sel: "(if cs = [] then Inr None
               else if ref = JNull then
                 bind_exn (sorted_first distance_km cs) (\<lambda>best. Inr (Some (node best, best)))
               else
                 (let matching = filter (\<lambda>c. temp_diff c \<le> 2) cs
                  in if matching \<noteq> [] then
                       bind_exn (sorted_first distance_km matching)
                         (\<lambda>best. Inr (Some (node best, best)))
                     else
                       bind_exn (sorted_first (\<lambda>c. (temp_diff c, distance_km c)) cs)
                         (\<lambda>best. Inr (Some (node best, best))))) =
              (Inr None :: exn + (json \<times> candidate) option)"
    unfolding find_best_matching_node_def bind_exn_eq_Inr by auto
  from sel have "cs = []"
    by (auto simp: bind_exn_eq_Inr Let_def split: if_splits)
  with cs collect_candidates_Nil show ?thesis
    by (fastforce simp: candidate_of_None_iff)
qed

lemma find_best_matching_node_no_complete:
  assumes "is_dict cur" and "\<forall>n\<in>set ns. is_dict n \<and> \<not> complete_data n"
  shows "find_best_matching_node e ulat ulon (JArr ns) cur = Inr None"
proof -
  from assms(1) obtain ref where ref: "dict_get cur ''temperature_2m'' = Inr ref"
    using dict_get_is_dict by blast
  from assms(2) have none: "\<forall>n\<in>set ns. candidate_of e ulat ulon ref n = Inr None"
    by (simp add: candidate_of_None_iff)
  then have "\<forall>n\<in>set ns. \<exists>r. candidate_of e ulat ulon ref n = Inr r" by blast
  from find_best_matching_node_eq [OF ref this] none show ?thesis
    by (simp add: Let_def map_filter_Nil_iff cand_def)
qed

lemma has_coordinates_iff:
  "has_coordinates n \<longleftrightarrow>
   (\<exists>a b. dict_get n ''latitude'' = Inr a \<and> dict_get n ''longitude'' = Inr b \<and>
          a \<noteq> JNull \<and> b \<noteq> JNull)"
  by (auto simp: has_coordinates_def field_present_iff)

lemma find_nearest_loop_no_coordinates:
  assumes "\<forall>n\<in>set ns. is_dict n \<and> \<not> has_coordinates n"
  shows "find_nearest_loop e ulat ulon ns acc = Inr acc"
  using assms
proof (induction ns)
  case Nil
  then show ?case by simp
next
  case (Cons n ns)
  then have d: "is_dict n" and nc: "\<not> has_coordinates n" by simp_all
  from d obtain a b where ab: "dict_get n ''latitude'' = Inr a" "dict_get n ''longitude'' = Inr b"
    using dict_get_is_dict by blast
  with nc have "a = JNull \<or> b = JNull" by (auto simp: has_coordinates_iff)
  with ab Cons show ?case by auto
qed

lemma find_nearest_loop_Some:
  assumes "find_nearest_loop e ulat ulon ns acc = Inr (Some (n, d))"
  shows "acc = Some (n, d) \<or> n \<in> set ns \<and> has_coordinates n"
  using assms
proof (induction ns arbitrary: acc)
  case Nil
  then show ?case by simp
next
  case (Cons m ns)
  from Cons.prems obtain a b where ab: "dict_get m ''latitude'' = Inr a"
    "dict_get m ''longitude'' = Inr b"
    by (auto simp: bind_exn_eq_Inr)
  show ?case
  proof (cases "a = JNull \<or> b = JNull")
    case True
    with Cons.prems ab have "find_nearest_loop e ulat ulon ns acc = Inr (Some (n, d))"
      by auto
    from Cons.IH [OF this] show ?thesis by auto
  next
    case False
    with ab have hc: "has_coordinates m" by (auto simp: has_coordinates_iff)
    from Cons.prems ab False obtain acc' where
      step: "find_nearest_loop e ulat ulon ns acc' = Inr (Some (n, d))"
      and acc': "acc' = acc \<or> (\<exists>dist. acc' = Some (m, dist))"
      by (auto simp: bind_exn_eq_Inr split: if_splits)
    from Cons.IH [OF step] acc' hc show ?thesis by auto
  qed
qed

lemma find_nearest_loop_None:
  assumes "find_nearest_loop e ulat ulon ns acc = Inr None"
  shows "acc = None \<and> (\<forall>n\<in>set ns. \<not> has_coordinates n)"
  using assms
proof (induction ns arbitrary: acc)
  case Nil
  then show ?case by simp
next
  case (Cons m ns)
  from Cons.prems obtain a b where ab: "dict_get m ''latitude'' = Inr a"
    "dict_get m ''longitude'' = Inr b"
    by (auto simp: bind_exn_eq_Inr)
  show ?case
  proof (cases "a = JNull \<or> b = JNull")
    case True
    with Cons.prems ab have "find_nearest_loop e ulat ulon ns acc = Inr None"
      by auto
    from Cons.IH [OF this] True ab show ?thesis by (auto simp: has_coordinates_iff)
  next
    case False
    from Cons.prems ab False obtain acc' where
      step: "find_nearest_loop e ulat ulon ns acc' = Inr None"
      and acc': "acc' = acc \<or> (\<exists>dist. acc' = Some (m, dist))"
      by (auto simp: bind_exn_eq_Inr split: if_splits)
    from Cons.IH [OF step] have "acc' = None" "\<forall>n\<in>set ns. \<not> has_coordinates n" by simp_all
    moreover from Cons.prems ab False \<open>acc' = None\<close> step have False
      by (auto simp: bind_exn_eq_Inr split: if_splits dest: Cons.IH)
    ultimately show ?thesis by simp
  qed
qed

lemma has_coordinates_truthy: "has_coordinates n \<Longrightarrow> truthy n"
  by (auto simp: has_coordinates_def dest: field_present_truthy)

lemma complete_data_has_coordinates: "complete_data n \<Longrightarrow> has_coordinates n"
  by (simp add: complete_data_def has_coordinates_def)

lemma has_coordinates_is_dict: "has_coordinates n \<Longrightarrow> is_dict n"
  by (auto simp: has_coordinates_iff dest: dict_get_Inr)

lemma build_payload_dict:
  assumes "is_dict n"
  shows "\<exists>p. build_payload ulat ulon n md = Inr p \<and>
             p_distance_km p = py_round2 (md_distance_km md) \<and>
             p_check_diff_temperature p = map_option py_round2 (md_temp_diff md)"
proof -
  from assms obtain kvs where "n = JObj kvs" by (cases n) (simp_all add: is_dict_def)
  then show ?thesis
    by (cases "md_temp_diff md") (simp_all add: build_payload_def)
qed

lemma build_payload_check_diff:
  assumes "build_payload ulat ulon n md = Inr p"
  shows "p_check_diff_temperature p = map_option py_round2 (md_temp_diff md)"
  using assms
  by (cases "md_temp_diff md") (auto simp: build_payload_def bind_exn_eq_Inr)

lemma api_select_best:
  assumes "find_best_matching_node e ulat ulon (JArr ns) cur = Inr (Some (n, best))"
  shows "api_select e ulat ulon (JArr ns) cur =
         Inr (Some (n, \<lparr>md_distance_km = distance_km best, md_temp_diff = Some (temp_diff best)\<rparr>))"
proof -
  from find_best_matching_node_Some [OF assms] obtain ref where
    "candidate_of e ulat ulon ref n = Inr (Some best)" by blast
  then have "complete_data n" by (simp add: candidate_of_Some)
  then have "truthy n" by (simp add: complete_data_has_coordinates has_coordinates_truthy)
  with assms show ?thesis by (simp add: api_select_def)
qed

lemma api_select_fallback:
  assumes "find_best_matching_node e ulat ulon (JArr ns) cur = Inr None"
  shows "api_select e ulat ulon (JArr ns) cur =
         (case find_nearest_loop e ulat ulon ns None of
            Inl x \<Rightarrow> Inl x
          | Inr None \<Rightarrow> Inr None
          | Inr (Some (n, d)) \<Rightarrow>
              if truthy n then Inr (Some (n, \<lparr>md_distance_km = d, md_temp_diff = None\<rparr>))
              else Inr None)"
  using assms
  by (simp add: api_select_def find_nearest_node_def bind_exn_def
      split: sum.splits option.splits prod.splits)

lemma api_select_Some:
  assumes "api_select e ulat ulon (JArr ns) cur = Inr (Some (n, md))"
  shows "n \<in> set ns \<and> has_coordinates n \<and>
         (complete_data n \<and> md_temp_diff md \<noteq> None \<or>
          (\<forall>n'\<in>set ns. \<not> complete_data n') \<and> md_temp_diff md = None)"
proof -
  from assms obtain sel where sel: "find_best_matching_node e ulat ulon (JArr ns) cur = Inr sel"
    by (auto simp: api_select_def bind_exn_eq_Inr)
  show ?thesis
  proof (cases sel)
    case None
    with sel have nc: "\<forall>n'\<in>set ns. \<not> complete_data n'"
      by (simp add: find_best_matching_node_None)
    from sel None have fb: "find_best_matching_node e ulat ulon (JArr ns) cur = Inr None"
      by simp
    from assms obtain d where
      "find_nearest_loop e ulat ulon ns None = Inr (Some (n, d))" "md_temp_diff md = None"
      unfolding api_select_fallback [OF fb]
      by (auto split: sum.splits option.splits prod.splits if_splits)
    with find_nearest_loop_Some [OF this(1)] nc show ?thesis by auto
  next
    case (Some a)
    then obtain n' best where a: "a = (n', best)" by (cases a) auto
    from api_select_best [of e ulat ulon ns cur n' best] sel Some a assms
    have "n = n'" "md_temp_diff md \<noteq> None" by auto
    moreover from find_best_matching_node_Some [of e ulat ulon ns cur n' best] sel Some a
    obtain ref where "n' \<in> set ns" "candidate_of e ulat ulon ref n' = Inr (Some best)" by auto
    ultimately show ?thesis
      by (auto simp: complete_data_has_coordinates dest: candidate_of_Some)
  qed
qed

lemma api_select_None:
  assumes "api_select e ulat ulon (JArr ns) cur = Inr None"
  shows "\<forall>n\<in>set ns. \<not> has_coordinates n"
proof -
  from assms obtain sel where sel: "find_best_matching_node e ulat ulon (JArr ns) cur = Inr sel"
    by (auto simp: api_select_def bind_exn_eq_Inr)
  have "sel = None"
  proof (cases sel)
    case (Some a)
    then obtain n' best where "a = (n', best)" by (cases a) auto
    with api_select_best [of e ulat ulon ns cur n' best] sel Some assms show ?thesis by simp
  qed simp
  with sel have fb: "find_best_matching_node e ulat ulon (JArr ns) cur = Inr None" by simp
  from assms obtain r where r: "find_nearest_loop e ulat ulon ns None = Inr r"
    unfolding api_select_fallback [OF fb] by (auto split: sum.splits)
  show ?thesis
  proof (cases r)
    case None
    with r find_nearest_loop_None show ?thesis by blast
  next
    case (Some a)
    then obtain n d where a: "r = Some (n, d)" by (cases a) auto
    with assms r have "\<not> truthy n"
      unfolding api_select_fallback [OF fb] by (auto split: if_splits)
    with find_nearest_loop_Some [of e ulat ulon ns None n d] r a has_coordinates_truthy
    show ?thesis by auto
  qed
qed

lemma api_select_no_coordinates:
  assumes "is_dict cur" and "\<forall>n\<in>set ns. is_dict n \<and> \<not> has_coordinates n"
  shows "api_select e ulat ulon (JArr ns) cur = Inr None"
proof -
  from assms(2) have "\<forall>n\<in>set ns. is_dict n \<and> \<not> complete_data n"
    using complete_data_has_coordinates by blast
  from find_best_matching_node_no_complete [OF assms(1) this]
    find_nearest_loop_no_coordinates [OF assms(2)]
  show ?thesis by (simp add: api_select_def find_nearest_node_def)
qed

lemma handle_api_fetched:
  assumes "parse_coordinate e q ''lat'' None = Inr (Some ulat)"
    and "parse_coordinate e q ''long'' (Some ''lon'') = Inr (Some ulon)"
    and "get_nodes_data e st = (Inr (raw, cs), st1)"
    and "json_loads e raw = Inr nodes"
    and "fetch_openmeteo_current e st1 ulat ulon = (Inr cur, st2)"
  shows "handle_api e st q =
         (case api_respond e ulat ulon nodes cur cs of
            Inl x \<Rightarrow> Inr (send_json (ErrorJson (Raised x)) 500 None)
          | Inr r \<Rightarrow> Inr r, st2)"
  using assms(3-5)
  by (simp add: handle_api_parsed [OF assms(1,2)] api_try_def split: sum.splits)

section \<open>The nearest station with coordinates\<close>

lemma find_nearest_loop_Cons:
  "find_nearest_loop e ulat ulon (n # ns) acc =
   bind_exn (distance_of e ulat ulon n) (\<lambda>r.
   case r of
     None \<Rightarrow> find_nearest_loop e ulat ulon ns acc
   | Some d \<Rightarrow>
       if (case acc of None \<Rightarrow> True | Some (nearest, min_distance) \<Rightarrow> d < min_distance)
       then find_nearest_loop e ulat ulon ns (Some (n, d))
       else find_nearest_loop e ulat ulon ns acc)"
  by (simp add: distance_of_def bind_exn_def split: sum.splits)

lemma distance_of_Some_has_coordinates:
  "distance_of e ulat ulon n = Inr (Some d) \<Longrightarrow> has_coordinates n"
  by (auto simp: distance_of_def bind_exn_eq_Inr has_coordinates_iff split: if_splits)

lemma distance_of_None_iff:
  "distance_of e ulat ulon n = Inr None \<longleftrightarrow> is_dict n \<and> \<not> has_coordinates n"
proof (cases n)
  case (JObj kvs)
  then show ?thesis
    by (auto simp: distance_of_def has_coordinates_def field_present_def is_dict_def
        bind_exn_eq_Inr split: if_splits)
qed (simp_all add: distance_of_def is_dict_def)

text \<open>Whether a distance replaces the pair the loop holds, and whether the pair stays.\<close>

lemma find_nearest_loop_first_min:
  assumes "\<forall>n\<in>set ns. \<exists>r. distance_of e ulat ulon n = Inr r"
  shows "\<exists>res. find_nearest_loop e ulat ulon ns acc = Inr res \<and>
           (res = acc \<and>
              (\<forall>j<length ns. \<forall>d'. distance_of e ulat ulon (ns ! j) = Inr (Some d') \<longrightarrow>
                 (\<exists>m dm. acc = Some (m, dm) \<and> dm \<le> d')) \<or>
            (\<exists>i<length ns. \<exists>d. distance_of e ulat ulon (ns ! i) = Inr (Some d) \<and>
               res = Some (ns ! i, d) \<and>
               (\<forall>m dm. acc = Some (m, dm) \<longrightarrow> d < dm) \<and>
               (\<forall>j<length ns. \<forall>d'. distance_of e ulat ulon (ns ! j) = Inr (Some d') \<longrightarrow>
                  d \<le> d' \<and> (j < i \<longrightarrow> d < d'))))"
  using assms
proof (induction ns arbitrary: acc)
  case Nil
  then show ?case by simp
next
  case (Cons n ns)
  then obtain r where r: "distance_of e ulat ulon n = Inr r" by auto
  from Cons.prems have ok: "\<forall>n\<in>set ns. \<exists>r. distance_of e ulat ulon n = Inr r" by simp
  let ?D = "\<lambda>k. distance_of e ulat ulon (ns ! k)"
  show ?case
  proof (cases r)
    case None
    from Cons.IH [OF ok, of acc] obtain res where
      res: "find_nearest_loop e ulat ulon ns acc = Inr res"
      and alt: "res = acc \<and>
              (\<forall>j<length ns. \<forall>d'. ?D j = Inr (Some d') \<longrightarrow> (\<exists>m dm. acc = Some (m, dm) \<and> dm \<le> d')) \<or>
            (\<exists>i<length ns. \<exists>d. ?D i = Inr (Some d) \<and> res = Some (ns ! i, d) \<and>
               (\<forall>m dm. acc = Some (m, dm) \<longrightarrow> d < dm) \<and>
               (\<forall>j<length ns. \<forall>d'. ?D j = Inr (Some d') \<longrightarrow> d \<le> d' \<and> (j < i \<longrightarrow> d < d')))"
      by blast
    have loop: "find_nearest_loop e ulat ulon (n # ns) acc = Inr res"
      using r None res by (simp only: find_nearest_loop_Cons) simp
    from alt show ?thesis
    proof
      assume a: "res = acc \<and>
        (\<forall>j<length ns. \<forall>d'. ?D j = Inr (Some d') \<longrightarrow> (\<exists>m dm. acc = Some (m, dm) \<and> dm \<le> d'))"
      have "\<forall>j<length (n # ns). \<forall>d'. distance_of e ulat ulon ((n # ns) ! j) = Inr (Some d') \<longrightarrow>
              (\<exists>m dm. acc = Some (m, dm) \<and> dm \<le> d')"
        using a r None by (auto simp: nth_Cons split: nat.splits)
      with a loop show ?thesis by blast
    next
      assume "\<exists>i<length ns. \<exists>d. ?D i = Inr (Some d) \<and> res = Some (ns ! i, d) \<and>
               (\<forall>m dm. acc = Some (m, dm) \<longrightarrow> d < dm) \<and>
               (\<forall>j<length ns. \<forall>d'. ?D j = Inr (Some d') \<longrightarrow> d \<le> d' \<and> (j < i \<longrightarrow> d < d'))"
      then obtain i d where i: "i < length ns" "?D i = Inr (Some d)" "res = Some (ns ! i, d)"
        "\<forall>m dm. acc = Some (m, dm) \<longrightarrow> d < dm"
        "\<forall>j<length ns. \<forall>d'. ?D j = Inr (Some d') \<longrightarrow> d \<le> d' \<and> (j < i \<longrightarrow> d < d')"
        by blast
      have "\<forall>j<length (n # ns). \<forall>d'. distance_of e ulat ulon ((n # ns) ! j) = Inr (Some d') \<longrightarrow>
              d \<le> d' \<and> (j < Suc i \<longrightarrow> d < d')"
        using i(5) r None by (auto simp: nth_Cons split: nat.splits)
      with i(1-4) loop show ?thesis
        by (intro exI [of _ res] conjI disjI2 exI [of _ "Suc i"] exI [of _ d]) simp_all
    qed
  next
    case (Some dn)
    show ?thesis
    proof (cases "case acc of None \<Rightarrow> True | Some (nearest, min_distance) \<Rightarrow> dn < min_distance")
      case True
      then have below: "\<forall>m dm. acc = Some (m, dm) \<longrightarrow> dn < dm" by auto
      from Cons.IH [OF ok, of "Some (n, dn)"] obtain res where
        res: "find_nearest_loop e ulat ulon ns (Some (n, dn)) = Inr res"
        and alt: "res = Some (n, dn) \<and>
                (\<forall>j<length ns. \<forall>d'. ?D j = Inr (Some d') \<longrightarrow> dn \<le> d') \<or>
              (\<exists>i<length ns. \<exists>d. ?D i = Inr (Some d) \<and> res = Some (ns ! i, d) \<and> d < dn \<and>
                 (\<forall>j<length ns. \<forall>d'. ?D j = Inr (Some d') \<longrightarrow> d \<le> d' \<and> (j < i \<longrightarrow> d < d')))"
        by auto
      have loop: "find_nearest_loop e ulat ulon (n # ns) acc = Inr res"
        using r Some True res by (simp only: find_nearest_loop_Cons) simp
      from alt show ?thesis
      proof
        assume a: "res = Some (n, dn) \<and> (\<forall>j<length ns. \<forall>d'. ?D j = Inr (Some d') \<longrightarrow> dn \<le> d')"
        have "\<forall>j<length (n # ns). \<forall>d'. distance_of e ulat ulon ((n # ns) ! j) = Inr (Some d') \<longrightarrow>
                dn \<le> d' \<and> (j < 0 \<longrightarrow> dn < d')"
          using a r Some by (auto simp: nth_Cons split: nat.splits)
        with a loop below r Some show ?thesis
          by (intro exI [of _ res] conjI disjI2 exI [of _ 0] exI [of _ dn]) simp_all
      next
        assume "\<exists>i<length ns. \<exists>d. ?D i = Inr (Some d) \<and> res = Some (ns ! i, d) \<and> d < dn \<and>
                 (\<forall>j<length ns. \<forall>d'. ?D j = Inr (Some d') \<longrightarrow> d \<le> d' \<and> (j < i \<longrightarrow> d < d'))"
        then obtain i d where i: "i < length ns" "?D i = Inr (Some d)" "res = Some (ns ! i, d)"
          "d < dn"
          "\<forall>j<length ns. \<forall>d'. ?D j = Inr (Some d') \<longrightarrow> d \<le> d' \<and> (j < i \<longrightarrow> d < d')"
          by blast
        have "\<forall>j<length (n # ns). \<forall>d'. distance_of e ulat ulon ((n # ns) ! j) = Inr (Some d') \<longrightarrow>
                d \<le> d' \<and> (j < Suc i \<longrightarrow> d < d')"
          using i(4,5) r Some by (auto simp: nth_Cons split: nat.splits)
        moreover have "\<forall>m dm. acc = Some (m, dm) \<longrightarrow> d < dm"
          using below i(4) by fastforce
        ultimately show ?thesis using i(1-3) loop
          by (intro exI [of _ res] conjI disjI2 exI [of _ "Suc i"] exI [of _ d]) simp_all
      qed
    next
      case False
      then obtain m dm where acc: "acc = Some (m, dm)" and le: "dm \<le> dn"
        by (auto split: option.splits)
      from Cons.IH [OF ok, of acc] obtain res where
        res: "find_nearest_loop e ulat ulon ns acc = Inr res"
        and alt: "res = acc \<and> (\<forall>j<length ns. \<forall>d'. ?D j = Inr (Some d') \<longrightarrow> dm \<le> d') \<or>
              (\<exists>i<length ns. \<exists>d. ?D i = Inr (Some d) \<and> res = Some (ns ! i, d) \<and> d < dm \<and>
                 (\<forall>j<length ns. \<forall>d'. ?D j = Inr (Some d') \<longrightarrow> d \<le> d' \<and> (j < i \<longrightarrow> d < d')))"
        unfolding acc by auto
      have loop: "find_nearest_loop e ulat ulon (n # ns) acc = Inr res"
        using r Some False res by (simp only: find_nearest_loop_Cons) simp
      from alt show ?thesis
      proof
        assume a: "res = acc \<and> (\<forall>j<length ns. \<forall>d'. ?D j = Inr (Some d') \<longrightarrow> dm \<le> d')"
        have "\<forall>j<length (n # ns). \<forall>d'. distance_of e ulat ulon ((n # ns) ! j) = Inr (Some d') \<longrightarrow>
                (\<exists>m dm. acc = Some (m, dm) \<and> dm \<le> d')"
          using a r Some le acc by (auto simp: nth_Cons split: nat.splits)
        with a loop show ?thesis by blast
      next
        assume "\<exists>i<length ns. \<exists>d. ?D i = Inr (Some d) \<and> res = Some (ns ! i, d) \<and> d < dm \<and>
                 (\<forall>j<length ns. \<forall>d'. ?D j = Inr (Some d') \<longrightarrow> d \<le> d' \<and> (j < i \<longrightarrow> d < d'))"
        then obtain i d where i: "i < length ns" "?D i = Inr (Some d)" "res = Some (ns ! i, d)"
          "d < dm"
          "\<forall>j<length ns. \<forall>d'. ?D j = Inr (Some d') \<longrightarrow> d \<le> d' \<and> (j < i \<longrightarrow> d < d')"
          by blast
        have "\<forall>j<length (n # ns). \<forall>d'. distance_of e ulat ulon ((n # ns) ! j) = Inr (Some d') \<longrightarrow>
                d \<le> d' \<and> (j < Suc i \<longrightarrow> d < d')"
          using i(4,5) r Some le by (auto simp: nth_Cons split: nat.splits)
        moreover have "\<forall>m' dm'. acc = Some (m', dm') \<longrightarrow> d < dm'"
          using acc i(4) by simp
        ultimately show ?thesis using i(1-3) loop
          by (intro exI [of _ res] conjI disjI2 exI [of _ "Suc i"] exI [of _ d]) simp_all
      qed
    qed
  qed
qed

lemma find_nearest_loop_nearest:
  assumes ok: "\<forall>n\<in>set ns. \<exists>r. distance_of e ulat ulon n = Inr r"
    and ex: "\<exists>n\<in>set ns. has_coordinates n"
  shows "\<exists>i<length ns. \<exists>d. distance_of e ulat ulon (ns ! i) = Inr (Some d) \<and>
           find_nearest_loop e ulat ulon ns None = Inr (Some (ns ! i, d)) \<and>
           (\<forall>j<length ns. \<forall>d'. distance_of e ulat ulon (ns ! j) = Inr (Some d') \<longrightarrow>
              d \<le> d' \<and> (j < i \<longrightarrow> d < d'))"
proof -
  from ex obtain k where k: "k < length ns" "has_coordinates (ns ! k)"
    by (auto simp: in_set_conv_nth)
  with ok nth_mem [OF k(1)] obtain r where r: "distance_of e ulat ulon (ns ! k) = Inr r"
    by blast
  with k(2) obtain dk where dk: "distance_of e ulat ulon (ns ! k) = Inr (Some dk)"
    by (cases r) (auto simp: distance_of_None_iff)
  from find_nearest_loop_first_min [OF ok, of None] k(1) dk show ?thesis
    by auto
qed

lemma api_select_nearest:
  assumes cur: "is_dict cur"
    and nc: "\<forall>n\<in>set ns. \<not> complete_data n"
    and ex: "\<exists>n\<in>set ns. has_coordinates n"
    and ok: "\<forall>n\<in>set ns. \<exists>r. distance_of e ulat ulon n = Inr r"
  shows "\<exists>i<length ns. \<exists>d. distance_of e ulat ulon (ns ! i) = Inr (Some d) \<and>
           api_select e ulat ulon (JArr ns) cur =
             Inr (Some (ns ! i, \<lparr>md_distance_km = d, md_temp_diff = None\<rparr>)) \<and>
           (\<forall>j<length ns. \<forall>d'. distance_of e ulat ulon (ns ! j) = Inr (Some d') \<longrightarrow>
              d \<le> d' \<and> (j < i \<longrightarrow> d < d'))"
proof -
  have dicts: "\<forall>n\<in>set ns. is_dict n"
  proof
    fix n assume "n \<in> set ns"
    with ok obtain r where "distance_of e ulat ulon n = Inr r" by blast
    then show "is_dict n"
      by (cases r) (auto simp: distance_of_None_iff
          dest: distance_of_Some_has_coordinates has_coordinates_is_dict)
  qed
  with nc have "\<forall>n\<in>set ns. is_dict n \<and> \<not> complete_data n" by simp
  note fb = find_best_matching_node_no_complete [OF cur this, of e ulat ulon]
  from find_nearest_loop_nearest [OF ok ex] obtain i d where
    i: "i < length ns" "distance_of e ulat ulon (ns ! i) = Inr (Some d)"
    "find_nearest_loop e ulat ulon ns None = Inr (Some (ns ! i, d))"
    "\<forall>j<length ns. \<forall>d'. distance_of e ulat ulon (ns ! j) = Inr (Some d') \<longrightarrow>
        d \<le> d' \<and> (j < i \<longrightarrow> d < d')"
    by blast
  from i(2) have "truthy (ns ! i)"
    by (auto dest: distance_of_Some_has_coordinates has_coordinates_truthy)
  with i(3) have "api_select e ulat ulon (JArr ns) cur =
      Inr (Some (ns ! i, \<lparr>md_distance_km = d, md_temp_diff = None\<rparr>))"
    by (simp add: api_select_fallback [OF fb])
  with i(1,2,4) show ?thesis by blast
qed

section \<open>Requests at concrete stations\<close>

lemma parse_example:
  "parse_coordinate (example_env nodes meteo) query_lat_long ''lat'' None = Inr (Some 0)"
  "parse_coordinate (example_env nodes meteo) query_lat_long ''long'' (Some ''lon'') = Inr (Some 0)"
  "parse_coordinate (example_env nodes meteo) query_lat_lon ''lat'' None = Inr (Some 0)"
  "parse_coordinate (example_env nodes meteo) query_lat_lon ''long'' (Some ''lon'') = Inr (Some 0)"
  by (simp_all add: parse_coordinate_def query_first_def query_lat_long_def query_lat_lon_def
      example_env_def example_float_str_def)

lemma get_nodes_example:
  "get_nodes_data (example_env nodes meteo) initial_state =
   (Inr (''nodes'', MISS),
    \<lparr>cache = \<lparr>data = Some ''nodes'', timestamp = 1000\<rparr>, calls = [FetchNodes]\<rparr>)"
  by (simp add: get_nodes_data_def example_env_def initial_state_def initial_cache_def)

lemma loads_example: "json_loads (example_env nodes meteo) ''nodes'' = Inr nodes"
  by (simp add: example_env_def)

lemma meteo_example:
  "fetch_openmeteo_current (example_env nodes (meteo_with t))
     \<lparr>cache = c, calls = [FetchNodes]\<rparr> 0 0 =
   (Inr (JObj [(''temperature_2m'', t)]), \<lparr>cache = c, calls = [FetchNodes, FetchOpenMeteo 0 0]\<rparr>)"
  by (simp add: fetch_openmeteo_current_def example_env_def meteo_with_def)

lemma handle_api_example:
  assumes "q = query_lat_long \<or> q = query_lat_lon"
  shows "handle_api (example_env nodes (meteo_with t)) initial_state q =
   (case api_respond (example_env nodes (meteo_with t)) 0 0 nodes
           (JObj [(''temperature_2m'', t)]) MISS of
      Inl x \<Rightarrow> Inr (send_json (ErrorJson (Raised x)) 500 None)
    | Inr r \<Rightarrow> Inr r,
    \<lparr>cache = \<lparr>data = Some ''nodes'', timestamp = 1000\<rparr>,
     calls = [FetchNodes, FetchOpenMeteo 0 0]\<rparr>)"
  using assms
  by (auto intro!: handle_api_fetched parse_example get_nodes_example loads_example meteo_example)

lemma py_round2_0: "py_round2 0 = 0"
  by (simp add: py_round2_def)

lemma find_nearest_example_bare:
  "find_nearest_node e 0 0 (JArr [bare_station ''X'' 0]) = Inr (Some (bare_station ''X'' 0, 0))"
  by (simp add: find_nearest_node_def bare_station_def calculate_distance_origin_0)

lemma find_best_example_bare:
  "find_best_matching_node e 0 0 (JArr [bare_station ''X'' 0]) (JObj [(''temperature_2m'', t)]) =
   Inr None"
  by (simp add: find_best_matching_node_def candidate_of_examples)

lemma api_respond_example_bare:
  "api_respond e 0 0 (JArr [bare_station ''X'' 0]) (JObj [(''temperature_2m'', t)]) MISS =
   Inr (send_json (ApiJson
     \<lparr>p_lat = 0, p_long = 0, p_node_name = JStr ''X'', p_distance_km = 0,
      p_temperature = JNull, p_relative_humidity = JNull, p_barometric_pressure = JNull,
      p_updated_at = JNull, p_checked_with_openmeteo = True,
      p_check_diff_temperature = None\<rparr>) 200 (Some MISS))"
  by (simp add: api_respond_def api_select_def find_best_example_bare find_nearest_example_bare)
    (simp add: bare_station_def build_payload_def py_or_def py_round2_0)

lemma find_best_example_single:
  "find_best_matching_node e 0 0 (JArr [station ''B'' 0 25]) (JObj [(''temperature_2m'', JNull)]) =
   Inr (Some (station ''B'' 0 25,
              \<lparr>node = station ''B'' 0 25, distance_km = 0, temp_diff = 0\<rparr>))"
  by (simp add: find_best_matching_node_def candidate_of_examples sorted_first_single)

lemma api_respond_example_single:
  "api_respond e 0 0 (JArr [station ''B'' 0 25]) (JObj [(''temperature_2m'', JNull)]) MISS =
   Inr (send_json (ApiJson
     \<lparr>p_lat = 0, p_long = 0, p_node_name = JStr ''B'', p_distance_km = 0,
      p_temperature = JFloat 25, p_relative_humidity = JFloat 50,
      p_barometric_pressure = JFloat 1013,
      p_updated_at = JNull, p_checked_with_openmeteo = True,
      p_check_diff_temperature = Some 0\<rparr>) 200 (Some MISS))"
  by (simp add: api_respond_def api_select_def find_best_example_single)
    (simp add: station_def build_payload_def py_or_def py_round2_0)

lemma distance_of_bare_station:
  assumes "calculate_distance 0 0 0 lon = Inr d"
  shows "distance_of e 0 0 (bare_station nm lon) = Inr (Some d)"
  using assms by (simp add: distance_of_def bare_station_def)

lemma distance_of_unlocated:
  "distance_of e ulat ulon (JObj [(''long_name'', JStr nm)]) = Inr None"
  by (simp add: distance_of_def)

lemmas distance_of_examples =
  distance_of_bare_station [OF calculate_distance_origin_0]
  distance_of_bare_station [OF calculate_distance_origin_180]
  distance_of_unlocated

lemma build_payload_bare_station:
  "build_payload 0 0 (bare_station ''X'' lon) \<lparr>md_distance_km = 0, md_temp_diff = None\<rparr> =
   Inr \<lparr>p_lat = 0, p_long = 0, p_node_name = JStr ''X'', p_distance_km = 0,
        p_temperature = JNull, p_relative_humidity = JNull, p_barometric_pressure = JNull,
        p_updated_at = JNull, p_checked_with_openmeteo = True,
        p_check_diff_temperature = None\<rparr>"
  by (simp add: bare_station_def build_payload_def py_or_def py_round2_0)

text \<open>
  C1 fails as stated: a list whose only station has coordinates and no weather field holds
  no candidate, and the answer is 200 with that station.
\<close>

theorem api_returns_station_without_weather:
  "\<not> complete_data (bare_station ''X'' 0) \<and>
   fst (handle_api (example_env (JArr [bare_station ''X'' 0]) (meteo_with (JFloat 20)))
          initial_state query_lat_long) =
   Inr (send_json (ApiJson
     \<lparr>p_lat = 0, p_long = 0, p_node_name = JStr ''X'', p_distance_km = 0,
      p_temperature = JNull, p_relative_humidity = JNull, p_barometric_pressure = JNull,
      p_updated_at = JNull, p_checked_with_openmeteo = True,
      p_check_diff_temperature = None\<rparr>) 200 (Some MISS))"
  by (simp add: handle_api_example api_respond_example_bare)
    (simp add: complete_data_def field_present_def bare_station_def)

text \<open>
  C2 fails as stated: with a null reference temperature and a complete station, the answer
  reports \<^verbatim>\<open>check_diff.temperature\<close> as 0.
\<close>

theorem api_reports_zero_for_null_reference:
  "dict_get (JObj [(''temperature_2m'', JNull)]) ''temperature_2m'' = Inr JNull \<and>
   fst (handle_api (example_env (JArr [station ''B'' 0 25]) (meteo_with JNull))
          initial_state query_lat_long) =
   Inr (send_json (ApiJson
     \<lparr>p_lat = 0, p_long = 0, p_node_name = JStr ''B'', p_distance_km = 0,
      p_temperature = JFloat 25, p_relative_humidity = JFloat 50,
      p_barometric_pressure = JFloat 1013,
      p_updated_at = JNull, p_checked_with_openmeteo = True,
      p_check_diff_temperature = Some 0\<rparr>) 200 (Some MISS))"
  by (simp add: handle_api_example api_respond_example_single)

text \<open>
  C10 fails as stated: a request without \<^verbatim>\<open>long\<close> that carries \<^verbatim>\<open>lon\<close> is answered 200,
  after both upstream requests.
\<close>

theorem api_accepts_lon_for_missing_long:
  "query_lat_lon ''long'' = None \<and>
   handle_api (example_env (JArr [station ''B'' 0 25]) (meteo_with JNull))
     initial_state query_lat_lon =
   (Inr (send_json (ApiJson
     \<lparr>p_lat = 0, p_long = 0, p_node_name = JStr ''B'', p_distance_km = 0,
      p_temperature = JFloat 25, p_relative_humidity = JFloat 50,
      p_barometric_pressure = JFloat 1013,
      p_updated_at = JNull, p_checked_with_openmeteo = True,
      p_check_diff_temperature = Some 0\<rparr>) 200 (Some MISS)),
    \<lparr>cache = \<lparr>data = Some ''nodes'', timestamp = 1000\<rparr>,
     calls = [FetchNodes, FetchOpenMeteo 0 0]\<rparr>)"
  by (simp add: handle_api_example api_respond_example_single) (simp add: query_lat_lon_def)

section \<open>What handle_api answers\<close>

text \<open>
  C1, amended. For a request with valid coordinates whose two upstream requests succeed,
  whose Open-Meteo \<^verbatim>\<open>current\<close> value is a dict and whose station list is a list of dicts:
  the answer is the 404 error exactly when no station has latitude and longitude both
  present. When no station is complete, some station has coordinates and no station makes
  the loop of \<^verbatim>\<open>find_nearest_node\<close> raise, the answer is 200 for the station of least
  distance among those with coordinates, the first of the input list among equally near
  ones, with \<^verbatim>\<open>distance_km\<close> that distance rounded and \<^verbatim>\<open>check_diff.temperature\<close> null.
  A 200 answer is always for a station of the list with coordinates; a station that lacks
  a weather field is answered only when the list holds no complete station, and then
  \<^verbatim>\<open>check_diff.temperature\<close> is null.
\<close>

theorem api_404_iff_no_coordinates:
  assumes lat: "parse_coordinate e q ''lat'' None = Inr (Some ulat)"
    and lon: "parse_coordinate e q ''long'' (Some ''lon'') = Inr (Some ulon)"
    and nodes: "get_nodes_data e st = (Inr (raw, cs), st1)"
    and loads: "json_loads e raw = Inr (JArr ns)"
    and meteo: "fetch_openmeteo_current e st1 ulat ulon = (Inr cur, st2)"
    and cur: "is_dict cur"
    and dicts: "\<forall>n\<in>set ns. is_dict n"
  shows "(fst (handle_api e st q) = Inr (send_json (ErrorJson NoNodeFound) 404 None) \<longleftrightarrow>
            (\<forall>n\<in>set ns. \<not> has_coordinates n)) \<and>
         ((\<forall>n\<in>set ns. \<not> complete_data n) \<and> (\<exists>n\<in>set ns. has_coordinates n) \<and>
          (\<forall>n\<in>set ns. \<exists>r. distance_of e ulat ulon n = Inr r) \<longrightarrow>
            (\<exists>i<length ns. \<exists>d p.
               distance_of e ulat ulon (ns ! i) = Inr (Some d) \<and>
               (\<forall>j<length ns. \<forall>d'. distance_of e ulat ulon (ns ! j) = Inr (Some d') \<longrightarrow>
                  d \<le> d' \<and> (j < i \<longrightarrow> d < d')) \<and>
               build_payload ulat ulon (ns ! i) \<lparr>md_distance_km = d, md_temp_diff = None\<rparr> =
                 Inr p \<and>
               p_distance_km p = py_round2 d \<and> p_check_diff_temperature p = None \<and>
               fst (handle_api e st q) = Inr (send_json (ApiJson p) 200 (Some cs)))) \<and>
         (\<forall>p c. fst (handle_api e st q) = Inr (send_json (ApiJson p) 200 c) \<longrightarrow>
            (\<exists>n md. api_select e ulat ulon (JArr ns) cur = Inr (Some (n, md)) \<and>
               build_payload ulat ulon n md = Inr p \<and>
               n \<in> set ns \<and> has_coordinates n \<and>
               (\<not> complete_data n \<longrightarrow>
                  (\<forall>n'\<in>set ns. \<not> complete_data n') \<and> p_check_diff_temperature p = None)))"
proof (intro conjI allI impI iffI)
  note eq = handle_api_fetched [OF lat lon nodes loads meteo]
  {
    assume "fst (handle_api e st q) = Inr (send_json (ErrorJson NoNodeFound) 404 None)"
    then have "api_respond e ulat ulon (JArr ns) cur cs =
        Inr (send_json (ErrorJson NoNodeFound) 404 None)"
      unfolding eq by (auto simp: send_json_def split: sum.splits)
    then obtain sel where s: "api_select e ulat ulon (JArr ns) cur = Inr sel"
      and r: "(case sel of
                 None \<Rightarrow> Inr (send_json (ErrorJson NoNodeFound) 404 None)
               | Some (selected_node, md) \<Rightarrow>
                   bind_exn (build_payload ulat ulon selected_node md) (\<lambda>p.
                   Inr (send_json (ApiJson p) 200 (Some cs)))) =
              Inr (send_json (ErrorJson NoNodeFound) 404 None)"
      by (auto simp: api_respond_def bind_exn_eq_Inr)
    have "sel = None"
    proof (cases sel)
      case (Some a)
      then obtain n md where "a = (n, md)" by (cases a) auto
      with r Some show ?thesis by (auto simp: bind_exn_eq_Inr send_json_def)
    qed simp
    with s have "api_select e ulat ulon (JArr ns) cur = Inr None" by simp
    then show "\<forall>n\<in>set ns. \<not> has_coordinates n" by (rule api_select_None)
  }
  {
    assume "\<forall>n\<in>set ns. \<not> has_coordinates n"
    with dicts have "\<forall>n\<in>set ns. is_dict n \<and> \<not> has_coordinates n" by simp
    from api_select_no_coordinates [OF cur this]
    show "fst (handle_api e st q) = Inr (send_json (ErrorJson NoNodeFound) 404 None)"
      unfolding eq by (simp add: api_respond_def)
  }
  {
    assume a: "(\<forall>n\<in>set ns. \<not> complete_data n) \<and> (\<exists>n\<in>set ns. has_coordinates n) \<and>
          (\<forall>n\<in>set ns. \<exists>r. distance_of e ulat ulon n = Inr r)"
    then have nc: "\<forall>n\<in>set ns. \<not> complete_data n" and ex: "\<exists>n\<in>set ns. has_coordinates n"
      and ok: "\<forall>n\<in>set ns. \<exists>r. distance_of e ulat ulon n = Inr r" by blast+
    from api_select_nearest [OF cur nc ex ok] obtain i d where
      i: "i < length ns" "distance_of e ulat ulon (ns ! i) = Inr (Some d)"
      "api_select e ulat ulon (JArr ns) cur =
         Inr (Some (ns ! i, \<lparr>md_distance_km = d, md_temp_diff = None\<rparr>))"
      "\<forall>j<length ns. \<forall>d'. distance_of e ulat ulon (ns ! j) = Inr (Some d') \<longrightarrow>
          d \<le> d' \<and> (j < i \<longrightarrow> d < d')"
      by blast
    from i(1) dicts have "is_dict (ns ! i)" by simp
    from build_payload_dict [OF this, of ulat ulon "\<lparr>md_distance_km = d, md_temp_diff = None\<rparr>"]
    obtain p where p: "build_payload ulat ulon (ns ! i) \<lparr>md_distance_km = d, md_temp_diff = None\<rparr> =
        Inr p" "p_distance_km p = py_round2 d" "p_check_diff_temperature p = None"
      by auto
    have "fst (handle_api e st q) = Inr (send_json (ApiJson p) 200 (Some cs))"
      unfolding eq using i(3) p(1) by (simp add: api_respond_def)
    with i(1,2,4) p
    show "\<exists>i<length ns. \<exists>d p.
               distance_of e ulat ulon (ns ! i) = Inr (Some d) \<and>
               (\<forall>j<length ns. \<forall>d'. distance_of e ulat ulon (ns ! j) = Inr (Some d') \<longrightarrow>
                  d \<le> d' \<and> (j < i \<longrightarrow> d < d')) \<and>
               build_payload ulat ulon (ns ! i) \<lparr>md_distance_km = d, md_temp_diff = None\<rparr> =
                 Inr p \<and>
               p_distance_km p = py_round2 d \<and> p_check_diff_temperature p = None \<and>
               fst (handle_api e st q) = Inr (send_json (ApiJson p) 200 (Some cs))"
      by blast
  }
  {
    fix p c
    assume "fst (handle_api e st q) = Inr (send_json (ApiJson p) 200 c)"
    then have "api_respond e ulat ulon (JArr ns) cur cs = Inr (send_json (ApiJson p) 200 c)"
      unfolding eq by (auto simp: send_json_def split: sum.splits)
    then obtain n md where sel: "api_select e ulat ulon (JArr ns) cur = Inr (Some (n, md))"
      and bp: "build_payload ulat ulon n md = Inr p"
      by (auto simp: api_respond_def bind_exn_eq_Inr send_json_def split: option.splits)
    from api_select_Some [OF sel] build_payload_check_diff [OF bp]
    show "\<exists>n md. api_select e ulat ulon (JArr ns) cur = Inr (Some (n, md)) \<and>
               build_payload ulat ulon n md = Inr p \<and>
               n \<in> set ns \<and> has_coordinates n \<and>
               (\<not> complete_data n \<longrightarrow>
                  (\<forall>n'\<in>set ns. \<not> complete_data n') \<and> p_check_diff_temperature p = None)"
      using sel bp by (intro exI [of _ n] exI [of _ md]) auto
  }
qed

text \<open>C1, amended, at a list of one station without coordinates, and at a list of
  three stations with coordinates only (W far, X and Z at the user's position) and one
  without: X is answered.\<close>

theorem api_404_iff_no_coordinates_witness:
  "fst (handle_api (example_env (JArr [JObj [(''long_name'', JStr ''Y'')]]) (meteo_with (JFloat 20)))
          initial_state query_lat_long) =
     Inr (send_json (ErrorJson NoNodeFound) 404 None) \<and>
   fst (handle_api
          (example_env
             (JArr [bare_station ''W'' 180, bare_station ''X'' 0, bare_station ''Z'' 0,
                    JObj [(''long_name'', JStr ''Y'')]])
             (meteo_with (JFloat 20)))
          initial_state query_lat_long) =
     Inr (send_json (ApiJson
       \<lparr>p_lat = 0, p_long = 0, p_node_name = JStr ''X'', p_distance_km = 0,
        p_temperature = JNull, p_relative_humidity = JNull, p_barometric_pressure = JNull,
        p_updated_at = JNull, p_checked_with_openmeteo = True,
        p_check_diff_temperature = None\<rparr>) 200 (Some MISS))"
proof -
  let ?y = "JObj [(''long_name'', JStr ''Y'')]"
  let ?ns = "[bare_station ''W'' 180, bare_station ''X'' 0, bare_station ''Z'' 0, ?y]"
  let ?e1 = "example_env (JArr [?y]) (meteo_with (JFloat 20))"
  let ?e2 = "example_env (JArr ?ns) (meteo_with (JFloat 20))"
  have cur: "is_dict (JObj [(''temperature_2m'', JFloat 20)])" by (simp add: is_dict_def)
  have d1: "\<forall>n\<in>set [?y]. is_dict n" by (simp add: is_dict_def)
  have d2: "\<forall>n\<in>set ?ns. is_dict n" by (simp add: is_dict_def bare_station_def)
  have c1: "\<forall>n\<in>set [?y]. \<not> has_coordinates n"
    by (simp add: has_coordinates_def field_present_def)
  have first: "fst (handle_api ?e1 initial_state query_lat_long) =
      Inr (send_json (ErrorJson NoNodeFound) 404 None)"
    using api_404_iff_no_coordinates [OF parse_example(1,2) get_nodes_example loads_example
      meteo_example cur d1] c1 by blast
  have nc: "\<forall>n\<in>set ?ns. \<not> complete_data n"
    by (simp add: complete_data_def field_present_def bare_station_def)
  have ex: "\<exists>n\<in>set ?ns. has_coordinates n"
    by (simp add: has_coordinates_def field_present_def bare_station_def)
  have ok: "\<forall>n\<in>set ?ns. \<exists>r. distance_of ?e2 0 0 n = Inr r"
    by (simp add: distance_of_examples)
  from api_404_iff_no_coordinates [OF parse_example(1,2) get_nodes_example loads_example
      meteo_example cur d2] nc ex ok
  obtain i d p where i: "i < length ?ns" "distance_of ?e2 0 0 (?ns ! i) = Inr (Some d)"
    "\<forall>j<length ?ns. \<forall>d'. distance_of ?e2 0 0 (?ns ! j) = Inr (Some d') \<longrightarrow>
        d \<le> d' \<and> (j < i \<longrightarrow> d < d')"
    "build_payload 0 0 (?ns ! i) \<lparr>md_distance_km = d, md_temp_diff = None\<rparr> = Inr p"
    "fst (handle_api ?e2 initial_state query_lat_long) =
       Inr (send_json (ApiJson p) 200 (Some MISS))"
    by blast
  from i(3) [rule_format, of 1 0] have x: "d \<le> 0 \<and> (1 < i \<longrightarrow> d < 0)"
    by (simp add: distance_of_examples)
  from i(1) have "i = 0 \<or> i = 1 \<or> i = 2 \<or> i = 3" by auto
  moreover have "i \<noteq> 0"
  proof
    assume "i = 0"
    with i(2) have "d = 6371 * pi" by (simp add: distance_of_examples)
    moreover from x have "d \<le> 0" by simp
    ultimately show False using pi_gt_zero by simp
  qed
  moreover have "i \<noteq> 2"
  proof
    assume "i = 2"
    with i(2) have "d = 0" by (simp add: distance_of_examples)
    moreover from x \<open>i = 2\<close> have "d < 0" by simp
    ultimately show False by simp
  qed
  moreover have "i \<noteq> 3"
  proof
    assume "i = 3"
    with i(2) show False by (simp add: distance_of_examples)
  qed
  ultimately have i1: "i = 1" by blast
  with i(2) have "d = 0" by (simp add: distance_of_examples)
  with i1 i(4) have "p = \<lparr>p_lat = 0, p_long = 0, p_node_name = JStr ''X'', p_distance_km = 0,
        p_temperature = JNull, p_relative_humidity = JNull, p_barometric_pressure = JNull,
        p_updated_at = JNull, p_checked_with_openmeteo = True,
        p_check_diff_temperature = None\<rparr>"
    by (simp add: build_payload_bare_station)
  with i(5) first show ?thesis by simp
qed

text \<open>
  C2, amended. The \<open>temp_diff\<close> of a selection of \<open>find_best_matching_node\<close> is a number: 0
  when the reference temperature is null, the absolute difference of the station's
  temperature and the reference otherwise. \<open>handle_api\<close> keeps that selection and reports
  \<^verbatim>\<open>check_diff.temperature\<close> as this number rounded to two decimals.
\<close>

theorem selected_temp_diff_is_number:
  assumes sel: "find_best_matching_node e ulat ulon (JArr ns) cur = Inr (Some (n, best))"
    and ref: "dict_get cur ''temperature_2m'' = Inr ref"
  shows "(ref = JNull \<longrightarrow> temp_diff best = 0) \<and>
         (ref \<noteq> JNull \<longrightarrow>
            (\<exists>v t r. dict_get n ''temperature'' = Inr v \<and>
               py_float (float_str e) v = Inr t \<and> py_float (float_str e) ref = Inr r \<and>
               temp_diff best = \<bar>t - r\<bar>)) \<and>
         api_select e ulat ulon (JArr ns) cur =
           Inr (Some (n, \<lparr>md_distance_km = distance_km best,
                          md_temp_diff = Some (temp_diff best)\<rparr>)) \<and>
         (\<exists>p. build_payload ulat ulon n
                 \<lparr>md_distance_km = distance_km best, md_temp_diff = Some (temp_diff best)\<rparr> =
               Inr p \<and>
              p_check_diff_temperature p = Some (py_round2 (temp_diff best)))"
proof -
  from find_best_matching_node_Some [OF sel] ref
  have c: "candidate_of e ulat ulon ref n = Inr (Some best)" by auto
  then have "is_dict n"
    by (auto dest!: candidate_of_Some dest: complete_data_has_coordinates has_coordinates_is_dict)
  from build_payload_dict [OF this, of ulat ulon
      "\<lparr>md_distance_km = distance_km best, md_temp_diff = Some (temp_diff best)\<rparr>"]
    candidate_of_temp_diff [OF c] api_select_best [OF sel]
  show ?thesis by auto
qed

text \<open>C2, amended, at one complete station and a null reference temperature.\<close>

theorem selected_temp_diff_is_number_witness:
  "find_best_matching_node (example_env JNull JNull) 0 0 (JArr [station ''B'' 0 25])
     (JObj [(''temperature_2m'', JNull)]) =
   Inr (Some (station ''B'' 0 25,
              \<lparr>node = station ''B'' 0 25, distance_km = 0, temp_diff = 0\<rparr>)) \<and>
   api_select (example_env JNull JNull) 0 0 (JArr [station ''B'' 0 25])
     (JObj [(''temperature_2m'', JNull)]) =
   Inr (Some (station ''B'' 0 25, \<lparr>md_distance_km = 0, md_temp_diff = Some 0\<rparr>))"
proof -
  have h1: "find_best_matching_node (example_env JNull JNull) 0 0 (JArr [station ''B'' 0 25])
     (JObj [(''temperature_2m'', JNull)]) =
   Inr (Some (station ''B'' 0 25,
              \<lparr>node = station ''B'' 0 25, distance_km = 0, temp_diff = 0\<rparr>))"
    by (rule find_best_example_single)
  have h2: "dict_get (JObj [(''temperature_2m'', JNull)]) ''temperature_2m'' = Inr JNull"
    by simp
  from selected_temp_diff_is_number [OF h1 h2] h1 show ?thesis by simp
qed

end
